theory Spec2Isabelle
  imports Complex_Main "HOL-Library.Monad_Syntax"
begin

section \<open>Numbers, points and matrices\<close>

text \<open>
  The deformer computes with C \<^verbatim>\<open>float\<close> and \<^verbatim>\<open>double\<close> values. They are modelled as
  \<^typ>\<open>real\<close>: rounding, overflow to infinity and NaN are abstracted away, and every
  theorem below is a statement about the arithmetic the code writes down, evaluated
  exactly. C \<^verbatim>\<open>int\<close> values are modelled as \<^typ>\<open>int\<close>; the index arithmetic of the
  multi-threaded dispatch stays inside the 32-bit range whenever the vertex count plus
  the task count does (lemma \<open>thread_range_in_int32\<close>).
\<close>

text \<open>
  \<^verbatim>\<open>const float EPSILON = 0.0000001;\<close> The constant is a \<^verbatim>\<open>float\<close>: its value is the
  single-precision number nearest to \<open>1e-7\<close>, which is \<open>14073749 / 2\<^sup>4\<^sup>7\<close>, a little above
  \<open>1e-7\<close> (about \<open>1.0000000117e-7\<close>). The tests \<^verbatim>\<open>EPSILON >= env\<close> and
  \<^verbatim>\<open>EPSILON >= weight\<close> compare with this value.
\<close>

definition EPSILON :: real where
  "EPSILON = 14073749 / 140737488355328"

text \<open>\<^verbatim>\<open>MStatus\<close>: the two values the deform methods return.\<close>

datatype MStatus = kSuccess | kFailure

text \<open>
  \<^verbatim>\<open>MPoint\<close> holds the four doubles x, y, z, w; a position read from the geometry
  iterator has w = 1. A row of an \<^verbatim>\<open>MMatrix\<close> is four doubles as well.
\<close>

datatype vec4 = Vec4 (vx: real) (vy: real) (vz: real) (vw: real)

type_synonym MPoint = vec4

datatype MMatrix = MMatrix (row0: vec4) (row1: vec4) (row2: vec4) (row3: vec4)

text \<open>
  \<^verbatim>\<open>pos *= mat\<close>: Maya multiplies the point, as a row vector, by the matrix on its
  right.
\<close>

definition point_times_matrix :: "MPoint \<Rightarrow> MMatrix \<Rightarrow> MPoint" where
  "point_times_matrix p m =
     Vec4 (vx p * vx (row0 m) + vy p * vx (row1 m) + vz p * vx (row2 m) + vw p * vx (row3 m))
          (vx p * vy (row0 m) + vy p * vy (row1 m) + vz p * vy (row2 m) + vw p * vy (row3 m))
          (vx p * vz (row0 m) + vy p * vz (row1 m) + vz p * vz (row2 m) + vw p * vz (row3 m))
          (vx p * vw (row0 m) + vy p * vw (row1 m) + vz p * vw (row2 m) + vw p * vw (row3 m))"

text \<open>\<^verbatim>\<open>a * b\<close> on matrices: each row of \<open>a\<close> is multiplied by \<open>b\<close>.\<close>

definition matrix_times_matrix :: "MMatrix \<Rightarrow> MMatrix \<Rightarrow> MMatrix" where
  "matrix_times_matrix a b =
     MMatrix (point_times_matrix (row0 a) b) (point_times_matrix (row1 a) b)
             (point_times_matrix (row2 a) b) (point_times_matrix (row3 a) b)"

definition identity_matrix :: MMatrix where
  "identity_matrix = MMatrix (Vec4 1 0 0 0) (Vec4 0 1 0 0) (Vec4 0 0 1 0) (Vec4 0 0 0 1)"

text \<open>
  \<^verbatim>\<open>MMatrix::inverse()\<close> belongs to the host API and returns a matrix without any
  status. The deform functions below take it as the parameter \<open>minv\<close>, so the general
  theorems hold for whatever the host returns, on singular input too. Closed examples
  use scaling (diagonal) matrices only, with the following instance: it is the true
  inverse of every invertible diagonal matrix. On a diagonal matrix with a zero entry
  it returns 0 at that entry (\<open>1 / 0 = 0\<close> in HOL), which stands for whatever the host
  returns there; the examples on a singular matrix say which of their values hold for
  every choice of \<open>minv\<close>.
\<close>

definition diagonal_inverse :: "MMatrix \<Rightarrow> MMatrix" where
  "diagonal_inverse m =
     MMatrix (Vec4 (1 / vx (row0 m)) 0 0 0) (Vec4 0 (1 / vy (row1 m)) 0 0)
             (Vec4 0 0 (1 / vz (row2 m)) 0) (Vec4 0 0 0 (1 / vw (row3 m)))"

section \<open>The noise library\<close>

text \<open>
  \<^verbatim>\<open>#include "libnoise/_simplex.c"\<close> brings in \<^verbatim>\<open>noise3\<close> and \<^verbatim>\<open>fbm_noise3\<close>; the file is
  not part of the sources at hand. The simplex kernel \<^verbatim>\<open>noise3\<close> is a parameter
  \<open>noise3\<close> of everything that follows. Closed examples instantiate it with the
  stand-in below, which has nothing of simplex noise but its range.
\<close>

type_synonym noise_fn = "real \<Rightarrow> real \<Rightarrow> real \<Rightarrow> real"

definition sample_noise3 :: noise_fn where
  "sample_noise3 x y z = x / (1 + x * x + y * y + z * z)"

text \<open>
  Modelled from the spec: \<^verbatim>\<open>fbm_noise3\<close> of \<^verbatim>\<open>libnoise/_simplex.c\<close>, which is missing
  from the sources. The spec's algorithm: accumulate
  \<^verbatim>\<open>sum += noise3(x*freq, y*freq, z*freq) * amp\<close> for \<^verbatim>\<open>octaves\<close> iterations, where
  \<^verbatim>\<open>freq\<close> starts at 1 and is multiplied by \<^verbatim>\<open>lacunarity\<close> each iteration and \<^verbatim>\<open>amp\<close>
  starts at 1 and is multiplied by \<^verbatim>\<open>persistence\<close> each iteration; the raw sum is
  returned. The loop state is (remaining iterations, freq, amp, sum).
\<close>

primrec fbm_loop :: "noise_fn \<Rightarrow> real \<Rightarrow> real \<Rightarrow> real \<Rightarrow> real \<Rightarrow> real \<Rightarrow>
    nat \<Rightarrow> real \<Rightarrow> real \<Rightarrow> real \<Rightarrow> real" where
  "fbm_loop noise3 x y z per lac 0 fr am tot = tot"
| "fbm_loop noise3 x y z per lac (Suc n) fr am tot =
     fbm_loop noise3 x y z per lac n (fr * lac) (am * per)
       (tot + noise3 (x * fr) (y * fr) (z * fr) * am)"

text \<open>
  Modelled from the spec: the call \<^verbatim>\<open>fbm_noise3(x, y, z, octaves, persistence, lacunarity)\<close>
  of the same missing file, as the loop above started with \<open>freq = 1\<close>, \<open>amp = 1\<close> and
  \<open>sum = 0\<close>. With \<open>octaves < 1\<close> the loop does not run.
\<close>

definition fbm_noise3 :: "noise_fn \<Rightarrow> real \<Rightarrow> real \<Rightarrow> real \<Rightarrow> int \<Rightarrow> real \<Rightarrow> real \<Rightarrow> real" where
  "fbm_noise3 noise3 x y z oct per lac = fbm_loop noise3 x y z per lac (nat oct) 1 1 0"

text \<open>The claim's sequences: \<open>freq\<^sub>0 = 1\<close>, \<open>freq\<^sub>k\<^sub>+\<^sub>1 = freq\<^sub>k * lacunarity\<close>, and the same for the amplitude.\<close>

primrec octave_freq :: "real \<Rightarrow> nat \<Rightarrow> real" where
  "octave_freq lac 0 = 1"
| "octave_freq lac (Suc k) = octave_freq lac k * lac"

primrec octave_amp :: "real \<Rightarrow> nat \<Rightarrow> real" where
  "octave_amp per 0 = 1"
| "octave_amp per (Suc k) = octave_amp per k * per"

definition octave_layer :: "noise_fn \<Rightarrow> real \<Rightarrow> real \<Rightarrow> real \<Rightarrow> real \<Rightarrow> real \<Rightarrow> nat \<Rightarrow> real" where
  "octave_layer noise3 x y z per lac k =
     noise3 (x * octave_freq lac k) (y * octave_freq lac k) (z * octave_freq lac k)
       * octave_amp per k"

section \<open>Attributes and geometry\<close>

text \<open>\<^verbatim>\<open>asFloat3()\<close>: three floats, read as \<^verbatim>\<open>amps[0]\<close>, \<^verbatim>\<open>amps[1]\<close>, \<^verbatim>\<open>amps[2]\<close>.\<close>

datatype float3 = Float3 (f0: real) (f1: real) (f2: real)

text \<open>
  The data block, as far as \<^verbatim>\<open>deform\<close> reads it. \<^verbatim>\<open>dataBlock.inputValue(attr, &stat)\<close>
  either yields the attribute's value or sets a failing status, on which \<^verbatim>\<open>CHECK_ERROR\<close>
  returns \<^verbatim>\<open>MS::kFailure\<close>: a field is \<open>None\<close> when that read fails. \<open>weightValue\<close> is
  \<^verbatim>\<open>weightValue(dataBlock, multiIndex, index)\<close> as a function of the vertex index.
\<close>

record MDataBlock =
  envelope :: "real option"
  numTasks :: "int option"
  amp :: "float3 option"
  freq :: "float3 option"
  offset :: "float3 option"
  octaves :: "int option"
  lacunarity :: "real option"
  persistence :: "real option"
  locatorWorldSpace :: "MMatrix option"
  weightValue :: "nat \<Rightarrow> real"

text \<open>
  The geometry iterator is the list of the positions it visits; \<^verbatim>\<open>geomIter.index()\<close> of
  the k-th position is k (the deformer is applied to the whole mesh).
\<close>

section \<open>The single-threaded deformer (skNoiseDeformer.cpp)\<close>

text \<open>
  The body of the loop over the points in \<^verbatim>\<open>SkNoiseDeformer::deform\<close>. \<open>None\<close> is the
  \<^verbatim>\<open>continue\<close> of a weight at or below \<^verbatim>\<open>EPSILON\<close>; \<open>Some pos\<close> is the argument of
  \<^verbatim>\<open>geomIter.setPosition(pos)\<close>. The three \<^verbatim>\<open>pos.x +=\<close>, \<^verbatim>\<open>pos.y +=\<close>, \<^verbatim>\<open>pos.z +=\<close>
  statements update \<open>pos\<close> one after the other.
\<close>

definition deform_point :: "noise_fn \<Rightarrow> real \<Rightarrow> float3 \<Rightarrow> float3 \<Rightarrow> float3 \<Rightarrow> int \<Rightarrow> real \<Rightarrow> real \<Rightarrow>
    MMatrix \<Rightarrow> MMatrix \<Rightarrow> real \<Rightarrow> MPoint \<Rightarrow> MPoint option" where
  "deform_point noise3 env amps freqs offsets oct lac per
       localToLocatorSpaceMat locatorToLocalSpaceMat weight position =
     (if EPSILON \<ge> weight then None
      else
        let pos = point_times_matrix position localToLocatorSpaceMat;
            noiseInput0 = f0 freqs * vx pos - f0 offsets;
            noiseInput1 = f1 freqs * vy pos - f1 offsets;
            noiseInput2 = f2 freqs * vz pos - f2 offsets;
            envTimesWeight = env * weight;
            pos = Vec4 (vx pos + f0 amps
                      * fbm_noise3 noise3 noiseInput0 noiseInput1 noiseInput2 oct per lac
                      * envTimesWeight) (vy pos) (vz pos) (vw pos);
            pos = Vec4 (vx pos) (vy pos + f1 amps
                      * fbm_noise3 noise3 (noiseInput0 + 123) (noiseInput1 + 456) (noiseInput2 + 789)
                          oct per lac
                      * envTimesWeight) (vz pos) (vw pos);
            pos = Vec4 (vx pos) (vy pos) (vz pos + f2 amps
                      * fbm_noise3 noise3 (noiseInput0 + 234) (noiseInput1 + 567) (noiseInput2 + 890)
                          oct per lac
                      * envTimesWeight) (vw pos)
        in Some (point_times_matrix pos locatorToLocalSpaceMat))"

text \<open>
  \<^verbatim>\<open>for (geomIter.reset(); !geomIter.isDone(); geomIter.next())\<close>: the body runs on each
  position with its index; a position the body skips stays as it is.
\<close>

primrec geom_loop :: "(nat \<Rightarrow> MPoint \<Rightarrow> MPoint option) \<Rightarrow> nat \<Rightarrow> MPoint list \<Rightarrow> MPoint list" where
  "geom_loop body index [] = []"
| "geom_loop body index (position # rest) =
     (case body index position of None \<Rightarrow> position | Some pos \<Rightarrow> pos)
       # geom_loop body (Suc index) rest"

text \<open>
  \<^verbatim>\<open>SkNoiseDeformer::deform\<close>. The result is the returned status and the positions of
  the geometry afterwards. \<open>minv\<close> is \<^verbatim>\<open>MMatrix::inverse()\<close>.
\<close>

definition deform :: "(MMatrix \<Rightarrow> MMatrix) \<Rightarrow> noise_fn \<Rightarrow> MDataBlock \<Rightarrow> MPoint list \<Rightarrow> MMatrix \<Rightarrow>
    MStatus \<times> MPoint list" where
  "deform minv noise3 dataBlock geom localToWorldMat =
     (case envelope dataBlock of
        None \<Rightarrow> (kFailure, geom)
      | Some env \<Rightarrow>
          if EPSILON \<ge> env then (kSuccess, geom)
          else
            (case do {
                    amps \<leftarrow> amp dataBlock;
                    freqs \<leftarrow> freq dataBlock;
                    offsets \<leftarrow> offset dataBlock;
                    oct \<leftarrow> octaves dataBlock;
                    lac \<leftarrow> lacunarity dataBlock;
                    per \<leftarrow> persistence dataBlock;
                    locatorWorldSpaceMat \<leftarrow> locatorWorldSpace dataBlock;
                    Some (amps, freqs, offsets, oct, lac, per, locatorWorldSpaceMat)
                  } of
               None \<Rightarrow> (kFailure, geom)
             | Some (amps, freqs, offsets, oct, lac, per, locatorWorldSpaceMat) \<Rightarrow>
                 let localToLocatorSpaceMat =
                       matrix_times_matrix localToWorldMat (minv locatorWorldSpaceMat);
                     locatorToLocalSpaceMat =
                       matrix_times_matrix locatorWorldSpaceMat (minv localToWorldMat)
                 in (kSuccess,
                     geom_loop
                       (\<lambda>index. deform_point noise3 env amps freqs offsets oct lac per
                          localToLocatorSpaceMat locatorToLocalSpaceMat
                          (weightValue dataBlock index))
                       0 geom)))"

section \<open>The multi-threaded deformer (skNoiseDeformerMT.cpp)\<close>

text \<open>
  \<^verbatim>\<open>SharedData\<close>, under the names \<^verbatim>\<open>threadTask\<close> gives its local copies. The point array
  it points to is the state the tasks update, and is passed beside it.
\<close>

record SharedData =
  sharedStart :: int
  sharedEnd :: int
  sharedWeights :: "real list"
  sharedEnv :: real
  sharedWidth :: int
  sharedNumTasks :: int
  sharedAmps :: float3
  sharedFreqs :: float3
  sharedOffsets :: float3
  sharedOctaves :: int
  sharedLacunarity :: real
  sharedPersistence :: real
  sharedLocalToLocatorSpaceMat :: MMatrix
  sharedLocatorToLocalSpaceMat :: MMatrix

text \<open>
  The body of the loop in \<^verbatim>\<open>threadTask\<close> at index \<open>i\<close>, on \<^verbatim>\<open>(*sharedPoints)[i]\<close>. There
  is no test of the weight here.
\<close>

definition thread_point :: "noise_fn \<Rightarrow> SharedData \<Rightarrow> int \<Rightarrow> MPoint \<Rightarrow> MPoint" where
  "thread_point noise3 sd i position =
     (let pos = point_times_matrix position (sharedLocalToLocatorSpaceMat sd);
          noiseInput0 = f0 (sharedFreqs sd) * vx pos - f0 (sharedOffsets sd);
          noiseInput1 = f1 (sharedFreqs sd) * vy pos - f1 (sharedOffsets sd);
          noiseInput2 = f2 (sharedFreqs sd) * vz pos - f2 (sharedOffsets sd);
          envTimesWeight = sharedEnv sd * (sharedWeights sd ! nat i);
          pos = Vec4 (vx pos + f0 (sharedAmps sd)
                    * fbm_noise3 noise3 noiseInput0 noiseInput1 noiseInput2
                        (sharedOctaves sd) (sharedPersistence sd) (sharedLacunarity sd)
                    * envTimesWeight) (vy pos) (vz pos) (vw pos);
          pos = Vec4 (vx pos) (vy pos + f1 (sharedAmps sd)
                    * fbm_noise3 noise3 (noiseInput0 + 123) (noiseInput1 + 456) (noiseInput2 + 789)
                        (sharedOctaves sd) (sharedPersistence sd) (sharedLacunarity sd)
                    * envTimesWeight) (vz pos) (vw pos);
          pos = Vec4 (vx pos) (vy pos) (vz pos + f2 (sharedAmps sd)
                    * fbm_noise3 noise3 (noiseInput0 + 234) (noiseInput1 + 567) (noiseInput2 + 890)
                        (sharedOctaves sd) (sharedPersistence sd) (sharedLacunarity sd)
                    * envTimesWeight) (vw pos)
      in point_times_matrix pos (sharedLocatorToLocalSpaceMat sd))"

text \<open>
  \<^verbatim>\<open>for (i = threadStartId; i < threadEndId && i <= sharedEnd; ++i)\<close>: first the indices
  the loop visits, in order, then the loop itself on the point array.
  \<^verbatim>\<open>SkNoiseDeformerMT::deform\<close> sets \<^verbatim>\<open>end\<close> to the last index of the point array and
  fills as many weights, so the loop stays inside both arrays (lemma
  \<open>thread_indices_in_bounds\<close>). Outside them the C code would read past an array; the
  model's \<open>!\<close> is unspecified there and no theorem speaks about it.
\<close>

function loop_indices :: "int \<Rightarrow> int \<Rightarrow> int \<Rightarrow> int list" where
  "loop_indices i threadEndId endId =
     (if i < threadEndId \<and> i \<le> endId then i # loop_indices (i + 1) threadEndId endId else [])"
  by pat_completeness auto
termination
  by (relation "measure (\<lambda>(i, threadEndId, endId). nat (threadEndId - i))") auto

function thread_loop :: "noise_fn \<Rightarrow> SharedData \<Rightarrow> int \<Rightarrow> int \<Rightarrow> MPoint list \<Rightarrow> MPoint list" where
  "thread_loop noise3 sd i threadEndId points =
     (if i < threadEndId \<and> i \<le> sharedEnd sd
      then thread_loop noise3 sd (i + 1) threadEndId
             (points[nat i := thread_point noise3 sd i (points ! nat i)])
      else points)"
  by pat_completeness auto
termination
  by (relation "measure (\<lambda>(noise3, sd, i, threadEndId, points). nat (threadEndId - i))") auto

declare loop_indices.simps [simp del] thread_loop.simps [simp del]

text \<open>The range of ids of the task \<open>tid\<close>, and \<^verbatim>\<open>threadTask\<close>.\<close>

definition thread_indices :: "int \<Rightarrow> int \<Rightarrow> int \<Rightarrow> int \<Rightarrow> int list" where
  "thread_indices startId endId width tid =
     (let threadStartId = startId + tid * width;
          threadEndId = threadStartId + width
      in loop_indices threadStartId threadEndId endId)"

definition threadTask :: "noise_fn \<Rightarrow> SharedData \<Rightarrow> int \<Rightarrow> MPoint list \<Rightarrow> MPoint list" where
  "threadTask noise3 sd tid points =
     (let threadStartId = sharedStart sd + tid * sharedWidth sd;
          threadEndId = threadStartId + sharedWidth sd
      in thread_loop noise3 sd threadStartId threadEndId points)"

text \<open>
  \<^verbatim>\<open>createTasksAndExecute\<close> creates the tasks with the ids 0 to \<^verbatim>\<open>numTasks - 1\<close> and
  \<^verbatim>\<open>MThreadPool::executeAndJoin\<close> runs them to completion. The model runs them one after
  the other in the order of their creation; \<open>run_steps\<close> below is the same work done as
  single index steps in any order.
\<close>

definition createTasksAndExecute :: "noise_fn \<Rightarrow> SharedData \<Rightarrow> MPoint list \<Rightarrow> MPoint list" where
  "createTasksAndExecute noise3 sd points =
     fold (threadTask noise3 sd) [0 .. sharedNumTasks sd - 1] points"

definition run_steps :: "noise_fn \<Rightarrow> SharedData \<Rightarrow> int list \<Rightarrow> MPoint list \<Rightarrow> MPoint list" where
  "run_steps noise3 sd steps points =
     fold (\<lambda>i pts. pts[nat i := thread_point noise3 sd i (pts ! nat i)]) steps points"

text \<open>
  \<^verbatim>\<open>sharedData.width = static_cast<int>(std::ceil((sharedData.end - sharedData.start + 1.0) / numTasks))\<close>.
  The attribute \<^verbatim>\<open>numTasks\<close> has the minimum 1, and the theorems about the width assume it.
\<close>

definition shared_width :: "int \<Rightarrow> int \<Rightarrow> int \<Rightarrow> int" where
  "shared_width startId endId tasks =
     \<lceil>(real_of_int (endId - startId) + 1.0) / real_of_int tasks\<rceil>"

text \<open>
  The first part of \<^verbatim>\<open>SkNoiseDeformerMT::deform\<close> after the test of the envelope: the
  attribute reads, the two matrices, the weights of all points, and the packed struct.
  \<open>None\<close> is a failed read.
\<close>

definition pack_shared_data :: "(MMatrix \<Rightarrow> MMatrix) \<Rightarrow> MDataBlock \<Rightarrow> real \<Rightarrow> MPoint list \<Rightarrow> MMatrix \<Rightarrow>
    SharedData option" where
  "pack_shared_data minv dataBlock env points localToWorldMat =
     do {
       tasks \<leftarrow> numTasks dataBlock;
       amps \<leftarrow> amp dataBlock;
       freqs \<leftarrow> freq dataBlock;
       offsets \<leftarrow> offset dataBlock;
       oct \<leftarrow> octaves dataBlock;
       lac \<leftarrow> lacunarity dataBlock;
       per \<leftarrow> persistence dataBlock;
       locatorWorldSpaceMat \<leftarrow> locatorWorldSpace dataBlock;
       Some \<lparr> sharedStart = 0,
              sharedEnd = int (length points) - 1,
              sharedWeights = map (weightValue dataBlock) [0 ..< length points],
              sharedEnv = env,
              sharedWidth = shared_width 0 (int (length points) - 1) tasks,
              sharedNumTasks = tasks,
              sharedAmps = amps,
              sharedFreqs = freqs,
              sharedOffsets = offsets,
              sharedOctaves = oct,
              sharedLacunarity = lac,
              sharedPersistence = per,
              sharedLocalToLocatorSpaceMat =
                matrix_times_matrix localToWorldMat (minv locatorWorldSpaceMat),
              sharedLocatorToLocalSpaceMat =
                matrix_times_matrix locatorWorldSpaceMat (minv localToWorldMat) \<rparr>
     }"

text \<open>\<^verbatim>\<open>SkNoiseDeformerMT::deform\<close>.\<close>

definition deform_MT :: "(MMatrix \<Rightarrow> MMatrix) \<Rightarrow> noise_fn \<Rightarrow> MDataBlock \<Rightarrow> MPoint list \<Rightarrow> MMatrix \<Rightarrow>
    MStatus \<times> MPoint list" where
  "deform_MT minv noise3 dataBlock geom localToWorldMat =
     (case envelope dataBlock of
        None \<Rightarrow> (kFailure, geom)
      | Some env \<Rightarrow>
          if EPSILON \<ge> env then (kSuccess, geom)
          else
            (case pack_shared_data minv dataBlock env geom localToWorldMat of
               None \<Rightarrow> (kFailure, geom)
             | Some sharedData \<Rightarrow> (kSuccess, createTasksAndExecute noise3 sharedData geom)))"

section \<open>The displacement as the specification words it\<close>

text \<open>
  Steps 2 to 6 of the per-vertex displacement: transform into noise space, noise
  coordinates \<open>n[i] = frequency[i] * p'[i] - offset[i]\<close>, three fBm evaluations at
  \<open>n\<close>, \<open>n + (123, 456, 789)\<close> and \<open>n + (234, 567, 890)\<close>, displacement of each axis
  by \<open>amplitude[i] * fbmResult[i] * envelope * weight\<close>, transform back.
\<close>

definition spec_displace :: "noise_fn \<Rightarrow> real \<Rightarrow> float3 \<Rightarrow> float3 \<Rightarrow> float3 \<Rightarrow> int \<Rightarrow> real \<Rightarrow> real \<Rightarrow>
    MMatrix \<Rightarrow> MMatrix \<Rightarrow> real \<Rightarrow> MPoint \<Rightarrow> MPoint" where
  "spec_displace noise3 env amplitude frequency offs oct lac per toNoiseSpace fromNoiseSpace weight p =
     (let p' = point_times_matrix p toNoiseSpace;
          nx = f0 frequency * vx p' - f0 offs;
          ny = f1 frequency * vy p' - f1 offs;
          nz = f2 frequency * vz p' - f2 offs;
          fbmX = fbm_noise3 noise3 nx ny nz oct per lac;
          fbmY = fbm_noise3 noise3 (nx + 123) (ny + 456) (nz + 789) oct per lac;
          fbmZ = fbm_noise3 noise3 (nx + 234) (ny + 567) (nz + 890) oct per lac
      in point_times_matrix
           (Vec4 (vx p' + f0 amplitude * fbmX * env * weight)
                 (vy p' + f1 amplitude * fbmY * env * weight)
                 (vz p' + f2 amplitude * fbmZ * env * weight)
                 (vw p'))
           fromNoiseSpace)"

text \<open>
  The two frame transforms as the specification words them:
  \<open>toNoiseSpace = localToWorld * inverse(referenceWorld)\<close> and
  \<open>fromNoiseSpace = referenceWorld * inverse(localToWorld)\<close>.
\<close>

definition spec_toNoiseSpace :: "(MMatrix \<Rightarrow> MMatrix) \<Rightarrow> MMatrix \<Rightarrow> MMatrix \<Rightarrow> MMatrix" where
  "spec_toNoiseSpace minv localToWorld referenceWorld =
     matrix_times_matrix localToWorld (minv referenceWorld)"

definition spec_fromNoiseSpace :: "(MMatrix \<Rightarrow> MMatrix) \<Rightarrow> MMatrix \<Rightarrow> MMatrix \<Rightarrow> MMatrix" where
  "spec_fromNoiseSpace minv localToWorld referenceWorld =
     matrix_times_matrix referenceWorld (minv localToWorld)"

section \<open>Data blocks for the theorems\<close>

text \<open>A data block all of whose attribute reads succeed, with the values they yield.\<close>

definition data_block :: "real \<Rightarrow> int \<Rightarrow> float3 \<Rightarrow> float3 \<Rightarrow> float3 \<Rightarrow> int \<Rightarrow> real \<Rightarrow> real \<Rightarrow>
    MMatrix \<Rightarrow> (nat \<Rightarrow> real) \<Rightarrow> MDataBlock" where
  "data_block env tasks amps freqs offsets oct lac per locatorWorldSpaceMat weights =
     \<lparr> envelope = Some env, numTasks = Some tasks,
       amp = Some amps, freq = Some freqs, offset = Some offsets,
       octaves = Some oct, lacunarity = Some lac, persistence = Some per,
       locatorWorldSpace = Some locatorWorldSpaceMat, weightValue = weights \<rparr>"

text \<open>
  The attribute values of the end-to-end scenario: the defaults of \<^verbatim>\<open>initialize\<close>
  (amplitude and frequency 1, offset 0, one octave, lacunarity 2, persistence 0.5,
  16 tasks) with a given envelope, locator matrix and weight function.
\<close>

definition default_block :: "real \<Rightarrow> MMatrix \<Rightarrow> (nat \<Rightarrow> real) \<Rightarrow> MDataBlock" where
  "default_block env locatorWorldSpaceMat weights =
     data_block env 16 (Float3 1 1 1) (Float3 1 1 1) (Float3 0 0 0) 1 2 (1 / 2)
       locatorWorldSpaceMat weights"

text \<open>A data block in which only the envelope can be read.\<close>

definition envelope_only_block :: "real \<Rightarrow> MDataBlock" where
  "envelope_only_block env =
     \<lparr> envelope = Some env, numTasks = None, amp = None, freq = None, offset = None,
       octaves = None, lacunarity = None, persistence = None,
       locatorWorldSpace = None, weightValue = (\<lambda>index. 1) \<rparr>"

section \<open>The fBm evaluator\<close>

text \<open>The loop, started anywhere, adds the layers that remain to what it has.\<close>

lemma fbm_loop_sum:
  "fbm_loop noise3 x y z per lac n fr am tot =
     tot + (\<Sum>k<n. noise3 (x * (fr * octave_freq lac k)) (y * (fr * octave_freq lac k))
                      (z * (fr * octave_freq lac k)) * (am * octave_amp per k))"
proof (induction n arbitrary: fr am tot)
  case 0
  show ?case by simp
next
  case (Suc n)
  have fr: "\<And>k. fr * lac * octave_freq lac k = fr * octave_freq lac (Suc k)"
    by (simp add: mult_ac)
  have am: "\<And>k. am * per * octave_amp per k = am * octave_amp per (Suc k)"
    by (simp add: mult_ac)
  show ?case
    unfolding fbm_loop.simps Suc.IH fr am
    by (simp add: sum.lessThan_Suc_shift
          del: octave_freq.simps(2) octave_amp.simps(2) sum.lessThan_Suc)
qed

lemma fbm_noise3_one [simp]: "fbm_noise3 noise3 x y z 1 per lac = noise3 x y z"
  by (simp add: fbm_noise3_def)

text \<open>
  C8. For every \<open>octaves \<ge> 1\<close>, \<open>fbm_noise3\<close> returns the raw sum over
  \<open>k = 0 .. octaves - 1\<close> of \<open>noise3 (x * freq\<^sub>k, y * freq\<^sub>k, z * freq\<^sub>k) * amp\<^sub>k\<close>, with
  \<open>freq\<^sub>0 = amp\<^sub>0 = 1\<close>, \<open>freq\<^sub>k\<^sub>+\<^sub>1 = freq\<^sub>k * lacunarity\<close> and \<open>amp\<^sub>k\<^sub>+\<^sub>1 = amp\<^sub>k * persistence\<close>;
  going from one octave to two adds the second layer to the first.
\<close>

theorem fbm_noise3_is_octave_sum:
  "1 \<le> oct \<Longrightarrow>
     fbm_noise3 noise3 x y z oct per lac = (\<Sum>k<nat oct. octave_layer noise3 x y z per lac k)
     \<and> fbm_noise3 noise3 x y z 1 per lac = noise3 x y z
     \<and> fbm_noise3 noise3 x y z 2 per lac =
         fbm_noise3 noise3 x y z 1 per lac + noise3 (x * lac) (y * lac) (z * lac) * per"
  by (simp add: fbm_noise3_def fbm_loop_sum octave_layer_def numeral_2_eq_2)

theorem fbm_noise3_is_octave_sum_witness:
  "(1::int) \<le> 3 \<and>
   fbm_noise3 sample_noise3 1 0 0 3 (1/2) 2 = 1/2 + 1/5 + 1/17"
  using fbm_noise3_is_octave_sum [of 3 sample_noise3 1 0 0 "1/2" 2]
  by (simp add: octave_layer_def sample_noise3_def numeral_3_eq_3)

section \<open>The index ranges of the tasks\<close>

lemma loop_indices_upto: "loop_indices i threadEndId endId = [i .. min (threadEndId - 1) endId]"
proof (induction i threadEndId endId rule: loop_indices.induct)
  case (1 i threadEndId endId)
  show ?case
  proof (cases "i < threadEndId \<and> i \<le> endId")
    case True
    then have "loop_indices i threadEndId endId = i # [i + 1 .. min (threadEndId - 1) endId]"
      using "1.IH" by (simp add: loop_indices.simps [of i])
    also have "\<dots> = [i .. min (threadEndId - 1) endId]"
      using True by (simp add: upto_rec1 [of i])
    finally show ?thesis .
  next
    case False
    then show ?thesis by (auto simp add: loop_indices.simps [of i])
  qed
qed

lemma thread_indices_upto:
  "thread_indices startId endId width tid =
     [startId + tid * width .. min (startId + tid * width + width - 1) endId]"
  by (simp add: thread_indices_def loop_indices_upto Let_def)

lemma thread_indices_in_bounds:
  assumes "0 \<le> width" "0 \<le> tid" "i \<in> set (thread_indices 0 (int n - 1) width tid)"
  shows "0 \<le> i \<and> nat i < n"
proof -
  have "0 \<le> tid * width" using assms(1,2) by simp
  then show ?thesis using assms(3) by (auto simp add: thread_indices_upto)
qed

lemma shared_width_bounds:
  assumes "0 \<le> n" "1 \<le> t"
  shows "0 \<le> shared_width 0 (n - 1) t \<and> n \<le> t * shared_width 0 (n - 1) t
    \<and> t * shared_width 0 (n - 1) t < n + t"
proof -
  let ?w = "shared_width 0 (n - 1) t"
  have w: "?w = \<lceil>real_of_int n / real_of_int t\<rceil>" by (simp add: shared_width_def)
  have tpos: "0 < real_of_int t" using assms by simp
  have "0 \<le> real_of_int n / real_of_int t" using assms by simp
  then have a: "0 \<le> ?w" unfolding w by (simp add: le_ceiling_iff)
  have "real_of_int n \<le> real_of_int ?w * real_of_int t"
    unfolding w using tpos by (rule ceiling_divide_upper)
  then have "real_of_int n \<le> real_of_int (t * ?w)" by (simp add: mult.commute)
  then have b: "n \<le> t * ?w" by linarith
  have "(real_of_int ?w - 1) * real_of_int t < real_of_int n"
    unfolding w using tpos by (rule ceiling_divide_lower)
  then have "real_of_int (t * ?w) < real_of_int (n + t)" by (simp add: algebra_simps)
  then have c: "t * ?w < n + t" by linarith
  from a b c show ?thesis by simp
qed

lemma tasks_concat_prefix:
  assumes "0 \<le> n" "0 \<le> w"
  shows "concat (map (thread_indices 0 (n - 1) w) [0 .. int j - 1]) = [0 .. min (int j * w) n - 1]"
proof (induction j)
  case 0
  show ?case by simp
next
  case (Suc j)
  define a where "a = int j * w"
  define b where "b = min (a + w) n - 1"
  have a0: "0 \<le> a" using assms by (simp add: a_def)
  have split: "[0 .. int (Suc j) - 1] = [0 .. int j - 1] @ [int j]"
    using upto_rec2 [of 0 "int j"] by simp
  have last: "thread_indices 0 (n - 1) w (int j) = [a .. b]"
    by (simp add: thread_indices_upto a_def b_def min_def)
  have goal: "min (int (Suc j) * w) n - 1 = b"
    by (simp add: a_def b_def algebra_simps)
  have "concat (map (thread_indices 0 (n - 1) w) [0 .. int (Suc j) - 1])
          = [0 .. min a n - 1] @ [a .. b]"
    unfolding split using Suc.IH last by (simp add: a_def)
  also have "\<dots> = [0 .. b]"
  proof (cases "a \<le> n")
    case True
    then have ab: "a - 1 \<le> b" using assms by (simp add: b_def)
    have "[0 .. b] = [0 .. a - 1] @ [a .. b]"
    proof (cases "a \<le> b")
      case True
      then show ?thesis using upto_split1 [of 0 a b] a0 by simp
    next
      case False
      then have "b = a - 1" using ab by simp
      then show ?thesis by simp
    qed
    then show ?thesis using True by (simp add: min_def)
  next
    case False
    then have "b = n - 1" "min a n = n" "b < a" using assms by (simp_all add: b_def)
    then show ?thesis by simp
  qed
  finally show ?case unfolding goal .
qed

lemma tasks_concat:
  assumes "0 \<le> n" "1 \<le> t"
  shows "concat (map (thread_indices 0 (n - 1) (shared_width 0 (n - 1) t)) [0 .. t - 1]) = [0 .. n - 1]"
proof -
  let ?w = "shared_width 0 (n - 1) t"
  have b: "0 \<le> ?w" "n \<le> t * ?w" using shared_width_bounds [OF assms] by simp_all
  have "concat (map (thread_indices 0 (n - 1) ?w) [0 .. int (nat t) - 1]) = [0 .. min (int (nat t) * ?w) n - 1]"
    using assms(1) b(1) by (rule tasks_concat_prefix)
  then show ?thesis using assms b by (simp add: min_def)
qed


lemma thread_range_in_int32:
  assumes "0 \<le> n" "1 \<le> t" "n + t \<le> 2147483648" "0 \<le> k" "k < t"
  shows "0 \<le> k * shared_width 0 (n - 1) t \<and> k * shared_width 0 (n - 1) t + shared_width 0 (n - 1) t \<le> 2147483647"
proof -
  let ?w = "shared_width 0 (n - 1) t"
  have b: "0 \<le> ?w" "t * ?w < n + t" using shared_width_bounds [OF assms(1,2)] by simp_all
  have "(k + 1) * ?w \<le> t * ?w" using assms b(1) by (intro mult_right_mono) simp_all
  then have "k * ?w + ?w \<le> t * ?w" by (simp add: algebra_simps)
  moreover have "0 \<le> k * ?w" using assms b(1) by simp
  ultimately show ?thesis using b(2) assms(3) by simp
qed




section \<open>A task as a sequence of index steps\<close>

lemma run_steps_length [simp]: "length (run_steps noise3 sd steps points) = length points"
  unfolding run_steps_def by (induction steps arbitrary: points) simp_all

lemma run_steps_Cons:
  "run_steps noise3 sd (i # steps) points =
     run_steps noise3 sd steps (points[nat i := thread_point noise3 sd i (points ! nat i)])"
  by (simp add: run_steps_def)

lemma run_steps_append:
  "run_steps noise3 sd (xs @ ys) points = run_steps noise3 sd ys (run_steps noise3 sd xs points)"
  by (simp add: run_steps_def)

lemma run_steps_nth:
  assumes "distinct steps" "\<forall>i\<in>set steps. 0 \<le> i" "j < length points"
  shows "run_steps noise3 sd steps points ! j =
     (if int j \<in> set steps then thread_point noise3 sd (int j) (points ! j) else points ! j)"
  using assms
proof (induction steps arbitrary: points)
  case Nil
  show ?case by (simp add: run_steps_def)
next
  case (Cons i steps)
  let ?points = "points[nat i := thread_point noise3 sd i (points ! nat i)]"
  have i: "0 \<le> i" "i \<notin> set steps" using Cons.prems by simp_all
  have IH: "run_steps noise3 sd steps ?points ! j =
     (if int j \<in> set steps then thread_point noise3 sd (int j) (?points ! j) else ?points ! j)"
    using Cons.prems by (intro Cons.IH) simp_all
  show ?case
  proof (cases "int j = i")
    case True
    then have "nat i = j" by simp
    then show ?thesis using IH i True Cons.prems(3) by (simp add: run_steps_Cons)
  next
    case False
    then have "nat i \<noteq> j" using i(1) by auto
    then show ?thesis using IH False by (simp add: run_steps_Cons)
  qed
qed

lemma thread_loop_run_steps:
  "thread_loop noise3 sd i threadEndId points =
     run_steps noise3 sd (loop_indices i threadEndId (sharedEnd sd)) points"
proof (induction noise3 sd i threadEndId points rule: thread_loop.induct)
  case (1 noise3 sd i threadEndId points)
  show ?case
  proof (cases "i < threadEndId \<and> i \<le> sharedEnd sd")
    case True
    then show ?thesis
      using "1.IH"
      by (simp add: thread_loop.simps [of noise3 sd i] loop_indices.simps [of i] run_steps_Cons)
  next
    case False
    then show ?thesis
      by (auto simp add: thread_loop.simps [of noise3 sd i] loop_indices.simps [of i] run_steps_def)
  qed
qed

lemma threadTask_run_steps:
  "threadTask noise3 sd tid points =
     run_steps noise3 sd (thread_indices (sharedStart sd) (sharedEnd sd) (sharedWidth sd) tid) points"
  by (simp add: threadTask_def thread_indices_def thread_loop_run_steps Let_def)

lemma fold_threadTask_run_steps:
  "fold (threadTask noise3 sd) tids points =
     run_steps noise3 sd
       (concat (map (thread_indices (sharedStart sd) (sharedEnd sd) (sharedWidth sd)) tids)) points"
  by (induction tids arbitrary: points) (simp_all add: threadTask_run_steps run_steps_append run_steps_def)

lemma createTasksAndExecute_run_steps:
  "createTasksAndExecute noise3 sd points =
     run_steps noise3 sd
       (concat (map (thread_indices (sharedStart sd) (sharedEnd sd) (sharedWidth sd))
          [0 .. sharedNumTasks sd - 1])) points"
  by (simp add: createTasksAndExecute_def fold_threadTask_run_steps)

text \<open>Any order of the index steps that visits every index once gives the same array.\<close>

lemma run_steps_cover:
  assumes "distinct steps" "set steps = {0 .. int (length points) - 1}"
  shows "run_steps noise3 sd steps points =
     map (\<lambda>j. thread_point noise3 sd (int j) (points ! j)) [0 ..< length points]"
proof (rule nth_equalityI)
  show "length (run_steps noise3 sd steps points) =
      length (map (\<lambda>j. thread_point noise3 sd (int j) (points ! j)) [0 ..< length points])"
    by simp
next
  fix j
  assume "j < length (run_steps noise3 sd steps points)"
  then have j: "j < length points" by simp
  have "\<forall>i\<in>set steps. 0 \<le> i" using assms(2) by simp
  then have "run_steps noise3 sd steps points ! j =
     (if int j \<in> set steps then thread_point noise3 sd (int j) (points ! j) else points ! j)"
    using assms(1) j by (intro run_steps_nth) simp_all
  moreover have "int j \<in> set steps" using assms(2) j by simp
  ultimately show "run_steps noise3 sd steps points ! j =
      map (\<lambda>j. thread_point noise3 sd (int j) (points ! j)) [0 ..< length points] ! j"
    using j by simp
qed

lemma createTasksAndExecute_map:
  assumes "sharedStart sd = 0" "sharedEnd sd = int (length points) - 1"
    "sharedWidth sd = shared_width 0 (int (length points) - 1) (sharedNumTasks sd)"
    "1 \<le> sharedNumTasks sd"
  shows "createTasksAndExecute noise3 sd points =
     map (\<lambda>j. thread_point noise3 sd (int j) (points ! j)) [0 ..< length points]"
proof -
  have "concat (map (thread_indices 0 (int (length points) - 1)
           (shared_width 0 (int (length points) - 1) (sharedNumTasks sd)))
          [0 .. sharedNumTasks sd - 1]) = [0 .. int (length points) - 1]"
    using assms(4) by (intro tasks_concat) simp_all
  then show ?thesis
    unfolding createTasksAndExecute_run_steps assms(1,2,3)
    by (simp add: run_steps_cover)
qed



section \<open>The partition of the indices\<close>



section \<open>The two deform methods as maps over the points\<close>

lemma geom_loop_length [simp]: "length (geom_loop body index geom) = length geom"
  by (induction geom arbitrary: index) simp_all

lemma geom_loop_nth:
  "i < length geom \<Longrightarrow>
     geom_loop body index geom ! i =
       (case body (index + i) (geom ! i) of None \<Rightarrow> geom ! i | Some pos \<Rightarrow> pos)"
proof (induction geom arbitrary: index i)
  case Nil
  then show ?case by simp
next
  case (Cons position rest)
  show ?case
  proof (cases i)
    case 0
    then show ?thesis by (simp split: option.split)
  next
    case (Suc i')
    then show ?thesis
      using Cons.prems Cons.IH [of i' "Suc index"] by (simp split: option.split)
  qed
qed

lemma deform_point_spec:
  "deform_point noise3 env amps freqs offsets oct lac per toLocator toLocal weight position =
     (if EPSILON \<ge> weight then None
      else Some (spec_displace noise3 env amps freqs offsets oct lac per toLocator toLocal
                   weight position))"
  by (simp add: deform_point_def spec_displace_def Let_def mult.assoc)

lemma thread_point_spec:
  "thread_point noise3 sd i position =
     spec_displace noise3 (sharedEnv sd) (sharedAmps sd) (sharedFreqs sd) (sharedOffsets sd)
       (sharedOctaves sd) (sharedLacunarity sd) (sharedPersistence sd)
       (sharedLocalToLocatorSpaceMat sd) (sharedLocatorToLocalSpaceMat sd)
       (sharedWeights sd ! nat i) position"
  by (simp add: thread_point_def spec_displace_def Let_def mult.assoc)

text \<open>What the two methods return when the envelope passes the test and every read succeeds.\<close>

lemma deform_run:
  "EPSILON < env \<Longrightarrow>
   deform minv noise3 (data_block env tasks amps freqs offsets oct lac per locMat weights)
       geom worldMat =
     (kSuccess,
      geom_loop (\<lambda>index. deform_point noise3 env amps freqs offsets oct lac per
          (matrix_times_matrix worldMat (minv locMat)) (matrix_times_matrix locMat (minv worldMat))
          (weights index)) 0 geom)"
  by (simp add: deform_def data_block_def)

lemma deform_run_nth:
  assumes "EPSILON < env" "i < length geom"
  shows "snd (deform minv noise3 (data_block env tasks amps freqs offsets oct lac per locMat weights)
       geom worldMat) ! i =
     (if weights i \<le> EPSILON then geom ! i
      else spec_displace noise3 env amps freqs offsets oct lac per
          (matrix_times_matrix worldMat (minv locMat)) (matrix_times_matrix locMat (minv worldMat))
          (weights i) (geom ! i))"
  using assms by (simp add: deform_run geom_loop_nth deform_point_spec)

lemma pack_shared_data_run:
  "pack_shared_data minv (data_block env0 tasks amps freqs offsets oct lac per locMat weights)
       env points worldMat =
     Some \<lparr> sharedStart = 0,
            sharedEnd = int (length points) - 1,
            sharedWeights = map weights [0 ..< length points],
            sharedEnv = env,
            sharedWidth = shared_width 0 (int (length points) - 1) tasks,
            sharedNumTasks = tasks,
            sharedAmps = amps, sharedFreqs = freqs, sharedOffsets = offsets,
            sharedOctaves = oct, sharedLacunarity = lac, sharedPersistence = per,
            sharedLocalToLocatorSpaceMat = matrix_times_matrix worldMat (minv locMat),
            sharedLocatorToLocalSpaceMat = matrix_times_matrix locMat (minv worldMat) \<rparr>"
  by (simp add: pack_shared_data_def data_block_def)

lemma deform_MT_run:
  assumes "EPSILON < env" "1 \<le> tasks"
  shows "deform_MT minv noise3 (data_block env tasks amps freqs offsets oct lac per locMat weights)
       geom worldMat =
     (kSuccess,
      map (\<lambda>j. spec_displace noise3 env amps freqs offsets oct lac per
          (matrix_times_matrix worldMat (minv locMat)) (matrix_times_matrix locMat (minv worldMat))
          (weights j) (geom ! j)) [0 ..< length geom])"
proof -
  have env: "envelope (data_block env tasks amps freqs offsets oct lac per locMat weights) = Some env"
    by (simp add: data_block_def)
  show ?thesis
    using assms
    by (simp add: deform_MT_def env pack_shared_data_run createTasksAndExecute_map thread_point_spec)
qed

lemma deform_MT_run_nth:
  assumes "EPSILON < env" "1 \<le> tasks" "i < length geom"
  shows "snd (deform_MT minv noise3 (data_block env tasks amps freqs offsets oct lac per locMat weights)
       geom worldMat) ! i =
     spec_displace noise3 env amps freqs offsets oct lac per
          (matrix_times_matrix worldMat (minv locMat)) (matrix_times_matrix locMat (minv worldMat))
          (weights i) (geom ! i)"
  using assms by (simp add: deform_MT_run)

text \<open>Identity frames.\<close>

lemma point_times_identity [simp]: "point_times_matrix p identity_matrix = p"
  by (cases p) (simp add: point_times_matrix_def identity_matrix_def)

lemma matrix_times_identity [simp]: "matrix_times_matrix m identity_matrix = m"
  by (cases m) (simp add: matrix_times_matrix_def)

lemma diagonal_inverse_identity [simp]: "diagonal_inverse identity_matrix = identity_matrix"
  by (simp add: diagonal_inverse_def identity_matrix_def)

lemma scenario_displace:
  "spec_displace noise3 1 (Float3 1 1 1) (Float3 1 1 1) (Float3 0 0 0) 1 2 (1 / 2)
       identity_matrix identity_matrix 1 (Vec4 1 0 0 1) =
     Vec4 (1 + noise3 1 0 0) (noise3 124 456 789) (noise3 235 567 890) 1"
  by (simp add: spec_displace_def)

section \<open>The displacement pipeline\<close>

text \<open>
  C1. Every vertex that is displaced (in the single-threaded method: weight above
  \<open>EPSILON\<close>; in the multi-threaded method: every vertex) gets the position of the
  pipeline: into noise space, \<open>n[i] = frequency[i] * p'[i] - offset[i]\<close>, fBm at \<open>n\<close>,
  \<open>n + (123, 456, 789)\<close> and \<open>n + (234, 567, 890)\<close>, displacement by
  \<open>amplitude[i] * fbm[i] * envelope * weight\<close>, back to local space. With identity
  frames and the default attributes the vertex \<open>(1, 0, 0)\<close> goes to
  \<open>(1 + noise3(1,0,0), noise3(124,456,789), noise3(235,567,890))\<close>.
\<close>

theorem displacement_pipeline:
  "EPSILON < env \<Longrightarrow> i < length geom \<Longrightarrow>
     (EPSILON < weights i \<longrightarrow>
        snd (deform minv noise3
               (data_block env tasks amps freqs offsets oct lac per locMat weights) geom worldMat) ! i
          = spec_displace noise3 env amps freqs offsets oct lac per
              (spec_toNoiseSpace minv worldMat locMat) (spec_fromNoiseSpace minv worldMat locMat)
              (weights i) (geom ! i))
     \<and> (1 \<le> tasks \<longrightarrow>
        snd (deform_MT minv noise3
               (data_block env tasks amps freqs offsets oct lac per locMat weights) geom worldMat) ! i
          = spec_displace noise3 env amps freqs offsets oct lac per
              (spec_toNoiseSpace minv worldMat locMat) (spec_fromNoiseSpace minv worldMat locMat)
              (weights i) (geom ! i))
     \<and> (minv identity_matrix = identity_matrix \<longrightarrow>
        deform minv noise3 (default_block 1 identity_matrix (\<lambda>index. 1)) [Vec4 1 0 0 1]
            identity_matrix
          = (kSuccess, [Vec4 (1 + noise3 1 0 0) (noise3 124 456 789) (noise3 235 567 890) 1])
        \<and> deform_MT minv noise3 (default_block 1 identity_matrix (\<lambda>index. 1)) [Vec4 1 0 0 1]
            identity_matrix
          = (kSuccess, [Vec4 (1 + noise3 1 0 0) (noise3 124 456 789) (noise3 235 567 890) 1]))"
proof (intro conjI impI)
  assume "EPSILON < env" "i < length geom" "EPSILON < weights i"
  then show "snd (deform minv noise3
               (data_block env tasks amps freqs offsets oct lac per locMat weights) geom worldMat) ! i
          = spec_displace noise3 env amps freqs offsets oct lac per
              (spec_toNoiseSpace minv worldMat locMat) (spec_fromNoiseSpace minv worldMat locMat)
              (weights i) (geom ! i)"
    by (simp add: deform_run_nth spec_toNoiseSpace_def spec_fromNoiseSpace_def)
next
  assume "EPSILON < env" "i < length geom" "1 \<le> tasks"
  then show "snd (deform_MT minv noise3
               (data_block env tasks amps freqs offsets oct lac per locMat weights) geom worldMat) ! i
          = spec_displace noise3 env amps freqs offsets oct lac per
              (spec_toNoiseSpace minv worldMat locMat) (spec_fromNoiseSpace minv worldMat locMat)
              (weights i) (geom ! i)"
    by (simp add: deform_MT_run_nth spec_toNoiseSpace_def spec_fromNoiseSpace_def)
next
  assume id: "minv identity_matrix = identity_matrix"
  have eps: "EPSILON < 1" by (simp add: EPSILON_def)
  show "deform minv noise3 (default_block 1 identity_matrix (\<lambda>index. 1)) [Vec4 1 0 0 1]
            identity_matrix
          = (kSuccess, [Vec4 (1 + noise3 1 0 0) (noise3 124 456 789) (noise3 235 567 890) 1])"
    using eps by (simp add: default_block_def deform_run deform_point_spec id scenario_displace)
  show "deform_MT minv noise3 (default_block 1 identity_matrix (\<lambda>index. 1)) [Vec4 1 0 0 1]
            identity_matrix
          = (kSuccess, [Vec4 (1 + noise3 1 0 0) (noise3 124 456 789) (noise3 235 567 890) 1])"
    using eps by (simp add: default_block_def deform_MT_run id scenario_displace)
qed

theorem displacement_pipeline_witness:
  "EPSILON < 1 \<and> (0::nat) < length [Vec4 1 0 0 1] \<and> EPSILON < 1 \<and> (1::int) \<le> 16
   \<and> diagonal_inverse identity_matrix = identity_matrix
   \<and> deform diagonal_inverse sample_noise3 (default_block 1 identity_matrix (\<lambda>index. 1))
        [Vec4 1 0 0 1] identity_matrix
       = (kSuccess, [Vec4 (3 / 2) (124 / 845834) (235 / 1168815) 1])
   \<and> deform_MT diagonal_inverse sample_noise3 (default_block 1 identity_matrix (\<lambda>index. 1))
        [Vec4 1 0 0 1] identity_matrix
       = (kSuccess, [Vec4 (3 / 2) (124 / 845834) (235 / 1168815) 1])"
  using displacement_pipeline [of 1 0 "[Vec4 1 0 0 1]" "\<lambda>index. 1" diagonal_inverse sample_noise3
      16 "Float3 1 1 1" "Float3 1 1 1" "Float3 0 0 0" 1 2 "1 / 2" identity_matrix identity_matrix]
  by (simp add: EPSILON_def sample_noise3_def)

section \<open>The envelope test\<close>

text \<open>
  C10. In both methods an envelope of at most \<open>1e-7\<close> returns success at once with
  every position as it was, whatever the weights and the other attributes are, also
  when they cannot be read.
\<close>

theorem envelope_early_return:
  "envelope db = Some env \<Longrightarrow> env \<le> 1 / 10000000 \<Longrightarrow>
     deform minv noise3 db geom worldMat = (kSuccess, geom)
     \<and> deform_MT minv noise3 db geom worldMat = (kSuccess, geom)"
  by (simp add: deform_def deform_MT_def EPSILON_def)

theorem envelope_early_return_witness:
  "envelope (envelope_only_block (1 / 10000000)) = Some (1 / 10000000)
   \<and> (1 / 10000000 :: real) \<le> 1 / 10000000
   \<and> deform diagonal_inverse sample_noise3 (envelope_only_block (1 / 10000000))
         [Vec4 1 0 0 1, Vec4 0 2 0 1] identity_matrix
       = (kSuccess, [Vec4 1 0 0 1, Vec4 0 2 0 1])
   \<and> deform_MT diagonal_inverse sample_noise3 (envelope_only_block (1 / 10000000))
         [Vec4 1 0 0 1, Vec4 0 2 0 1] identity_matrix
       = (kSuccess, [Vec4 1 0 0 1, Vec4 0 2 0 1])"
  using envelope_early_return [of "envelope_only_block (1 / 10000000)" "1 / 10000000"
      diagonal_inverse sample_noise3 "[Vec4 1 0 0 1, Vec4 0 2 0 1]" identity_matrix]
  by (simp add: envelope_only_block_def)

section \<open>The frame transforms\<close>

text \<open>
  C6. Both methods compute, from the matrices of the invocation at hand,
  \<open>toNoiseSpace = localToWorld * inverse(referenceWorld)\<close> and
  \<open>fromNoiseSpace = referenceWorld * inverse(localToWorld)\<close>: these are the matrices
  the single-threaded loop body receives and the two matrices packed into the shared
  data of the tasks. Nothing is kept from one invocation to the next (the node classes
  declare no data member besides the attribute handles), so the result is a function of
  the arguments of this invocation. An invocation stopped by the envelope test returns
  before any matrix is needed.
\<close>

theorem frame_transforms:
  "1 \<le> tasks \<Longrightarrow>
   deform minv noise3 (data_block env tasks amps freqs offsets oct lac per locMat weights)
       geom worldMat
     = (if EPSILON \<ge> env then (kSuccess, geom)
        else (kSuccess,
          geom_loop (\<lambda>index. deform_point noise3 env amps freqs offsets oct lac per
              (spec_toNoiseSpace minv worldMat locMat) (spec_fromNoiseSpace minv worldMat locMat)
              (weights index)) 0 geom))
   \<and> (case pack_shared_data minv
              (data_block env tasks amps freqs offsets oct lac per locMat weights)
              env geom worldMat of
        None \<Rightarrow> False
      | Some sd \<Rightarrow>
          sharedLocalToLocatorSpaceMat sd = spec_toNoiseSpace minv worldMat locMat
          \<and> sharedLocatorToLocalSpaceMat sd = spec_fromNoiseSpace minv worldMat locMat
          \<and> deform_MT minv noise3
                (data_block env tasks amps freqs offsets oct lac per locMat weights)
                geom worldMat
              = (if EPSILON \<ge> env then (kSuccess, geom)
                 else (kSuccess, createTasksAndExecute noise3 sd geom)))"
proof -
  have e: "envelope (data_block env tasks amps freqs offsets oct lac per locMat weights) = Some env"
    by (simp add: data_block_def)
  have st: "EPSILON \<ge> env \<Longrightarrow>
      deform minv noise3 (data_block env tasks amps freqs offsets oct lac per locMat weights)
        geom worldMat = (kSuccess, geom)"
    by (simp add: deform_def e)
  show ?thesis
    by (cases "EPSILON \<ge> env")
      (simp_all add: st deform_run pack_shared_data_run deform_MT_def e
          spec_toNoiseSpace_def spec_fromNoiseSpace_def)
qed

theorem frame_transforms_witness:
  "(1::int) \<le> 16 \<and> EPSILON < 1
   \<and> spec_toNoiseSpace diagonal_inverse
        (MMatrix (Vec4 2 0 0 0) (Vec4 0 2 0 0) (Vec4 0 0 2 0) (Vec4 0 0 0 1))
        (MMatrix (Vec4 4 0 0 0) (Vec4 0 4 0 0) (Vec4 0 0 4 0) (Vec4 0 0 0 1))
       = MMatrix (Vec4 (1 / 2) 0 0 0) (Vec4 0 (1 / 2) 0 0) (Vec4 0 0 (1 / 2) 0) (Vec4 0 0 0 1)
   \<and> spec_fromNoiseSpace diagonal_inverse
        (MMatrix (Vec4 2 0 0 0) (Vec4 0 2 0 0) (Vec4 0 0 2 0) (Vec4 0 0 0 1))
        (MMatrix (Vec4 4 0 0 0) (Vec4 0 4 0 0) (Vec4 0 0 4 0) (Vec4 0 0 0 1))
       = MMatrix (Vec4 2 0 0 0) (Vec4 0 2 0 0) (Vec4 0 0 2 0) (Vec4 0 0 0 1)
   \<and> deform diagonal_inverse sample_noise3
        (default_block 1 (MMatrix (Vec4 4 0 0 0) (Vec4 0 4 0 0) (Vec4 0 0 4 0) (Vec4 0 0 0 1))
           (\<lambda>index. 1))
        [Vec4 2 0 0 1] (MMatrix (Vec4 2 0 0 0) (Vec4 0 2 0 0) (Vec4 0 0 2 0) (Vec4 0 0 0 1))
       = (kSuccess,
          geom_loop (\<lambda>index. deform_point sample_noise3 1 (Float3 1 1 1) (Float3 1 1 1)
              (Float3 0 0 0) 1 2 (1 / 2)
              (MMatrix (Vec4 (1 / 2) 0 0 0) (Vec4 0 (1 / 2) 0 0) (Vec4 0 0 (1 / 2) 0) (Vec4 0 0 0 1))
              (MMatrix (Vec4 2 0 0 0) (Vec4 0 2 0 0) (Vec4 0 0 2 0) (Vec4 0 0 0 1))
              1) 0 [Vec4 2 0 0 1])
   \<and> map_option sharedLocalToLocatorSpaceMat
        (pack_shared_data diagonal_inverse
           (default_block 1 (MMatrix (Vec4 4 0 0 0) (Vec4 0 4 0 0) (Vec4 0 0 4 0) (Vec4 0 0 0 1))
              (\<lambda>index. 1))
           1 [Vec4 2 0 0 1] (MMatrix (Vec4 2 0 0 0) (Vec4 0 2 0 0) (Vec4 0 0 2 0) (Vec4 0 0 0 1)))
       = Some (MMatrix (Vec4 (1 / 2) 0 0 0) (Vec4 0 (1 / 2) 0 0) (Vec4 0 0 (1 / 2) 0) (Vec4 0 0 0 1))"
proof -
  let ?W = "MMatrix (Vec4 2 0 0 0) (Vec4 0 2 0 0) (Vec4 0 0 2 0) (Vec4 0 0 0 1)"
  let ?L = "MMatrix (Vec4 4 0 0 0) (Vec4 0 4 0 0) (Vec4 0 0 4 0) (Vec4 0 0 0 1)"
  have eps: "EPSILON < 1" by (simp add: EPSILON_def)
  have toN: "spec_toNoiseSpace diagonal_inverse ?W ?L
       = MMatrix (Vec4 (1 / 2) 0 0 0) (Vec4 0 (1 / 2) 0 0) (Vec4 0 0 (1 / 2) 0) (Vec4 0 0 0 1)"
    by (simp add: spec_toNoiseSpace_def diagonal_inverse_def matrix_times_matrix_def
          point_times_matrix_def)
  have fromN: "spec_fromNoiseSpace diagonal_inverse ?W ?L = ?W"
    by (simp add: spec_fromNoiseSpace_def diagonal_inverse_def matrix_times_matrix_def
          point_times_matrix_def)
  show ?thesis
    using eps frame_transforms [of 16 diagonal_inverse sample_noise3 1 "Float3 1 1 1"
        "Float3 1 1 1" "Float3 0 0 0" 1 2 "1 / 2" ?L "\<lambda>index. 1" "[Vec4 2 0 0 1]" ?W]
    by (simp add: toN fromN default_block_def split: option.splits)
qed

section \<open>Status and failure\<close>

lemma deform_failure_keeps_geom:
  "fst (deform minv noise3 db geom worldMat) = kFailure \<Longrightarrow>
     snd (deform minv noise3 db geom worldMat) = geom"
  by (auto simp add: deform_def Let_def split: option.splits if_splits prod.splits)

lemma deform_MT_failure_keeps_geom:
  "fst (deform_MT minv noise3 db geom worldMat) = kFailure \<Longrightarrow>
     snd (deform_MT minv noise3 db geom worldMat) = geom"
  by (auto simp add: deform_MT_def split: option.splits if_splits)

lemma deform_status:
  "fst (deform minv noise3 (data_block env tasks amps freqs offsets oct lac per locMat weights)
          geom worldMat) = kSuccess"
  by (simp add: deform_def data_block_def)

lemma deform_MT_status:
  "fst (deform_MT minv noise3 (data_block env tasks amps freqs offsets oct lac per locMat weights)
          geom worldMat) = kSuccess"
proof -
  have e: "envelope (data_block env tasks amps freqs offsets oct lac per locMat weights) = Some env"
    by (simp add: data_block_def)
  show ?thesis by (simp add: deform_MT_def pack_shared_data_run e)
qed

text \<open>The value of the constant, and the envelope test on a block whose reads succeed.\<close>

lemma EPSILON_float: "EPSILON = 14073749 / 2 ^ 47 \<and> 1 / 10000000 < EPSILON"
  by (simp add: EPSILON_def)

lemma deform_below_envelope:
  "env \<le> EPSILON \<Longrightarrow>
     deform minv noise3 (data_block env tasks amps freqs offsets oct lac per locMat weights)
         geom worldMat = (kSuccess, geom)
     \<and> deform_MT minv noise3 (data_block env tasks amps freqs offsets oct lac per locMat weights)
         geom worldMat = (kSuccess, geom)"
  by (simp add: deform_def deform_MT_def data_block_def)

lemma deform_MT_tasks:
  assumes "1 \<le> t1" "1 \<le> t2"
  shows "deform_MT minv noise3 (db\<lparr>numTasks := Some t1\<rparr>) geom worldMat =
         deform_MT minv noise3 (db\<lparr>numTasks := Some t2\<rparr>) geom worldMat"
proof (cases "envelope db")
  case None
  then show ?thesis by (simp add: deform_MT_def)
next
  case (Some env)
  show ?thesis
  proof (cases "EPSILON \<ge> env")
    case True
    then show ?thesis using Some by (simp add: deform_MT_def)
  next
    case False
    show ?thesis
    proof (cases "amp db = None \<or> freq db = None \<or> offset db = None \<or> octaves db = None
        \<or> lacunarity db = None \<or> persistence db = None \<or> locatorWorldSpace db = None")
      case True
      then have "pack_shared_data minv (db\<lparr>numTasks := Some t\<rparr>) env geom worldMat = None" for t
        by (auto simp add: pack_shared_data_def)
      then show ?thesis using Some False by (simp add: deform_MT_def)
    next
      case allread: False
      then obtain amps freqs offsets oct lac per locMat where
        "amp db = Some amps" "freq db = Some freqs" "offset db = Some offsets"
        "octaves db = Some oct" "lacunarity db = Some lac" "persistence db = Some per"
        "locatorWorldSpace db = Some locMat"
        by auto
      then have "db\<lparr>numTasks := Some t\<rparr> =
          data_block env t amps freqs offsets oct lac per locMat (weightValue db)" for t
        using Some by (cases db) (simp add: data_block_def)
      then show ?thesis using False assms by (simp add: deform_MT_run)
    qed
  qed
qed

section \<open>Independence of the task count\<close>

text \<open>
  C4. The multi-threaded method returns the same status and positions for every task
  count \<open>t \<ge> 1\<close>: each output position is the pipeline applied to that vertex's own
  input position and weight with the shared parameters, and the single index steps of
  the tasks give that same array in whatever order they run, as long as every index is
  visited once.
\<close>

theorem task_count_invariance:
  "1 \<le> t1 \<Longrightarrow> 1 \<le> t2 \<Longrightarrow>
     deform_MT minv noise3 (db\<lparr>numTasks := Some t1\<rparr>) geom worldMat
       = deform_MT minv noise3 (db\<lparr>numTasks := Some t2\<rparr>) geom worldMat
     \<and> (EPSILON < env \<longrightarrow>
          deform_MT minv noise3
              (data_block env t1 amps freqs offsets oct lac per locMat weights) geom worldMat
            = (kSuccess,
               map (\<lambda>j. spec_displace noise3 env amps freqs offsets oct lac per
                      (spec_toNoiseSpace minv worldMat locMat)
                      (spec_fromNoiseSpace minv worldMat locMat)
                      (weights j) (geom ! j))
                 [0 ..< length geom]))
     \<and> (\<forall>steps sd. distinct steps \<and> set steps = {0 .. int (length geom) - 1}
            \<and> pack_shared_data minv
                  (data_block env t1 amps freqs offsets oct lac per locMat weights)
                  env geom worldMat = Some sd
          \<longrightarrow> run_steps noise3 sd steps geom = createTasksAndExecute noise3 sd geom)"
proof (intro conjI impI allI)
  assume "1 \<le> t1" "1 \<le> t2"
  then show "deform_MT minv noise3 (db\<lparr>numTasks := Some t1\<rparr>) geom worldMat
       = deform_MT minv noise3 (db\<lparr>numTasks := Some t2\<rparr>) geom worldMat"
    by (rule deform_MT_tasks)
next
  assume "1 \<le> t1" "EPSILON < env"
  then show "deform_MT minv noise3
              (data_block env t1 amps freqs offsets oct lac per locMat weights) geom worldMat
            = (kSuccess,
               map (\<lambda>j. spec_displace noise3 env amps freqs offsets oct lac per
                      (spec_toNoiseSpace minv worldMat locMat)
                      (spec_fromNoiseSpace minv worldMat locMat)
                      (weights j) (geom ! j))
                 [0 ..< length geom])"
    by (simp add: deform_MT_run spec_toNoiseSpace_def spec_fromNoiseSpace_def)
next
  fix steps sd
  assume t: "1 \<le> t1"
    and s: "distinct steps \<and> set steps = {0 .. int (length geom) - 1}
            \<and> pack_shared_data minv
                  (data_block env t1 amps freqs offsets oct lac per locMat weights)
                  env geom worldMat = Some sd"
  from s have sd: "sharedStart sd = 0" "sharedEnd sd = int (length geom) - 1"
    "sharedWidth sd = shared_width 0 (int (length geom) - 1) (sharedNumTasks sd)"
    "sharedNumTasks sd = t1"
    by (auto simp add: pack_shared_data_run)
  have "createTasksAndExecute noise3 sd geom =
     map (\<lambda>j. thread_point noise3 sd (int j) (geom ! j)) [0 ..< length geom]"
    using sd t by (intro createTasksAndExecute_map) simp_all
  moreover have "run_steps noise3 sd steps geom =
     map (\<lambda>j. thread_point noise3 sd (int j) (geom ! j)) [0 ..< length geom]"
    using s by (intro run_steps_cover) simp_all
  ultimately show "run_steps noise3 sd steps geom = createTasksAndExecute noise3 sd geom"
    by simp
qed

theorem task_count_invariance_witness:
  "(1::int) \<le> 1 \<and> (1::int) \<le> 7
   \<and> deform_MT diagonal_inverse sample_noise3
        ((default_block 1 identity_matrix (\<lambda>index. 1))\<lparr>numTasks := Some 1\<rparr>)
        [Vec4 1 0 0 1, Vec4 0 0 0 1] identity_matrix
     = deform_MT diagonal_inverse sample_noise3
        ((default_block 1 identity_matrix (\<lambda>index. 1))\<lparr>numTasks := Some 7\<rparr>)
        [Vec4 1 0 0 1, Vec4 0 0 0 1] identity_matrix
   \<and> EPSILON < 1
   \<and> deform_MT diagonal_inverse sample_noise3
        (data_block 1 1 (Float3 1 1 1) (Float3 1 1 1) (Float3 0 0 0) 1 2 (1 / 2)
           identity_matrix (\<lambda>index. 1))
        [Vec4 1 0 0 1, Vec4 0 0 0 1] identity_matrix
     = (kSuccess, [Vec4 (3 / 2) (124 / 845834) (235 / 1168815) 1,
                   Vec4 0 (123 / 845587) (234 / 1168346) 1])"
  using task_count_invariance [of 1 7 diagonal_inverse sample_noise3
      "default_block 1 identity_matrix (\<lambda>index. 1)" "[Vec4 1 0 0 1, Vec4 0 0 0 1]"
      identity_matrix 1 "Float3 1 1 1" "Float3 1 1 1" "Float3 0 0 0" 1 2 "1 / 2"
      identity_matrix "\<lambda>index. 1"]
  by (simp add: EPSILON_def spec_toNoiseSpace_def spec_fromNoiseSpace_def spec_displace_def
        sample_noise3_def upt_rec [of 0] upt_rec [of 1] upt_rec [of 2])

section \<open>Singular matrices\<close>

text \<open>
  A locator scaled to zero along x has a singular world matrix. Whatever the noise,
  and whatever the host returns as the inverse of that matrix, both methods move the
  vertex \<open>(1, 0, 0)\<close> into the plane \<open>x = 0\<close>.
\<close>

lemma flat_locator_moves_vertex:
  assumes "minv identity_matrix = identity_matrix"
  shows "EPSILON < weights 0 \<Longrightarrow>
     vx (snd (deform minv noise3
        (default_block 1 (MMatrix (Vec4 0 0 0 0) (Vec4 0 1 0 0) (Vec4 0 0 1 0) (Vec4 0 0 0 1))
           weights)
        [Vec4 1 0 0 1] identity_matrix) ! 0) = 0"
    and "vx (snd (deform_MT minv noise3
        (default_block 1 (MMatrix (Vec4 0 0 0 0) (Vec4 0 1 0 0) (Vec4 0 0 1 0) (Vec4 0 0 0 1))
           weights)
        [Vec4 1 0 0 1] identity_matrix) ! 0) = 0"
proof -
  have eps: "EPSILON < 1" by (simp add: EPSILON_def)
  show "EPSILON < weights 0 \<Longrightarrow>
     vx (snd (deform minv noise3
        (default_block 1 (MMatrix (Vec4 0 0 0 0) (Vec4 0 1 0 0) (Vec4 0 0 1 0) (Vec4 0 0 0 1))
           weights)
        [Vec4 1 0 0 1] identity_matrix) ! 0) = 0"
    using eps assms
    by (simp add: default_block_def deform_run deform_point_spec spec_displace_def Let_def
          matrix_times_matrix_def point_times_matrix_def identity_matrix_def)
  show "vx (snd (deform_MT minv noise3
        (default_block 1 (MMatrix (Vec4 0 0 0 0) (Vec4 0 1 0 0) (Vec4 0 0 1 0) (Vec4 0 0 0 1))
           weights)
        [Vec4 1 0 0 1] identity_matrix) ! 0) = 0"
    using eps assms
    by (simp add: default_block_def deform_MT_run spec_displace_def Let_def
          matrix_times_matrix_def point_times_matrix_def identity_matrix_def)
qed

text \<open>
  C7, as the code has it. Neither method tests a matrix for invertibility. When every
  attribute read succeeds the status is success, whatever the two matrices are, and
  above the envelope test the vertices go through the pipeline with whatever matrices
  \<^verbatim>\<open>inverse()\<close> returned. A failure status comes from a failed attribute read only, and
  then every position is as it was.
\<close>

theorem matrices_never_tested:
  "fst (deform minv noise3 (data_block env tasks amps freqs offsets oct lac per locMat weights)
          geom worldMat) = kSuccess
   \<and> (1 \<le> tasks \<longrightarrow>
        fst (deform_MT minv noise3
               (data_block env tasks amps freqs offsets oct lac per locMat weights)
               geom worldMat) = kSuccess)
   \<and> (EPSILON < env \<longrightarrow>
        snd (deform minv noise3 (data_block env tasks amps freqs offsets oct lac per locMat weights)
               geom worldMat)
          = geom_loop (\<lambda>index. deform_point noise3 env amps freqs offsets oct lac per
              (matrix_times_matrix worldMat (minv locMat))
              (matrix_times_matrix locMat (minv worldMat))
              (weights index)) 0 geom)
   \<and> (EPSILON < env \<and> 1 \<le> tasks \<longrightarrow>
        snd (deform_MT minv noise3
               (data_block env tasks amps freqs offsets oct lac per locMat weights) geom worldMat)
          = map (\<lambda>j. spec_displace noise3 env amps freqs offsets oct lac per
              (matrix_times_matrix worldMat (minv locMat))
              (matrix_times_matrix locMat (minv worldMat))
              (weights j) (geom ! j)) [0 ..< length geom])
   \<and> (fst (deform minv noise3 db geom worldMat) = kFailure \<longrightarrow>
        snd (deform minv noise3 db geom worldMat) = geom)
   \<and> (fst (deform_MT minv noise3 db geom worldMat) = kFailure \<longrightarrow>
        snd (deform_MT minv noise3 db geom worldMat) = geom)"
  by (simp add: deform_status deform_MT_status deform_run deform_MT_run
        deform_failure_keeps_geom deform_MT_failure_keeps_geom)

theorem matrices_never_tested_witness:
  "EPSILON < 1 \<and> (1::int) \<le> 16
   \<and> fst (deform diagonal_inverse sample_noise3 (default_block 1 identity_matrix (\<lambda>index. 1))
          [Vec4 1 0 0 1] identity_matrix) = kSuccess
   \<and> snd (deform_MT diagonal_inverse sample_noise3 (default_block 1 identity_matrix (\<lambda>index. 1))
          [Vec4 1 0 0 1] identity_matrix) = [Vec4 (3 / 2) (124 / 845834) (235 / 1168815) 1]
   \<and> fst (deform diagonal_inverse sample_noise3 (envelope_only_block 1)
          [Vec4 1 0 0 1] identity_matrix) = kFailure
   \<and> snd (deform diagonal_inverse sample_noise3 (envelope_only_block 1)
          [Vec4 1 0 0 1] identity_matrix) = [Vec4 1 0 0 1]
   \<and> fst (deform_MT diagonal_inverse sample_noise3 (envelope_only_block 1)
          [Vec4 1 0 0 1] identity_matrix) = kFailure
   \<and> snd (deform_MT diagonal_inverse sample_noise3 (envelope_only_block 1)
          [Vec4 1 0 0 1] identity_matrix) = [Vec4 1 0 0 1]"
proof -
  have eps: "EPSILON < 1" by (simp add: EPSILON_def)
  have f1: "fst (deform diagonal_inverse sample_noise3 (envelope_only_block 1)
          [Vec4 1 0 0 1] identity_matrix) = kFailure"
    using eps by (simp add: deform_def envelope_only_block_def)
  have f2: "fst (deform_MT diagonal_inverse sample_noise3 (envelope_only_block 1)
          [Vec4 1 0 0 1] identity_matrix) = kFailure"
    using eps by (simp add: deform_MT_def pack_shared_data_def envelope_only_block_def)
  show ?thesis
    using eps f1 f2
      matrices_never_tested [of diagonal_inverse sample_noise3 1 16 "Float3 1 1 1" "Float3 1 1 1"
        "Float3 0 0 0" 1 2 "1 / 2" identity_matrix "\<lambda>index. 1" "[Vec4 1 0 0 1]" identity_matrix
        "envelope_only_block 1"]
    by (simp add: default_block_def spec_displace_def sample_noise3_def)
qed

text \<open>
  The claim as stated fails: the locator matrix below is singular (it sends the
  non-zero vector \<open>(1, 0, 0, 0)\<close> to zero), and both methods return success and move
  the vertex. The values of the moved vertex are those for the stand-ins
  \<open>diagonal_inverse\<close> and \<open>sample_noise3\<close>; its \<open>x = 0\<close> holds for every inverse and noise
  (\<open>flat_locator_moves_vertex\<close>).
\<close>

theorem singular_matrix_counterexample:
  "point_times_matrix (Vec4 1 0 0 0)
      (MMatrix (Vec4 0 0 0 0) (Vec4 0 1 0 0) (Vec4 0 0 1 0) (Vec4 0 0 0 1)) = Vec4 0 0 0 0
   \<and> deform diagonal_inverse sample_noise3
        (default_block 1 (MMatrix (Vec4 0 0 0 0) (Vec4 0 1 0 0) (Vec4 0 0 1 0) (Vec4 0 0 0 1))
           (\<lambda>index. 1))
        [Vec4 1 0 0 1] identity_matrix
       = (kSuccess, [Vec4 0 (123 / 845587) (234 / 1168346) 1])
   \<and> deform_MT diagonal_inverse sample_noise3
        (default_block 1 (MMatrix (Vec4 0 0 0 0) (Vec4 0 1 0 0) (Vec4 0 0 1 0) (Vec4 0 0 0 1))
           (\<lambda>index. 1))
        [Vec4 1 0 0 1] identity_matrix
       = (kSuccess, [Vec4 0 (123 / 845587) (234 / 1168346) 1])"
proof -
  have eps: "EPSILON < 1" by (simp add: EPSILON_def)
  show ?thesis
    using eps
    by (simp add: default_block_def deform_run deform_MT_run deform_point_spec spec_displace_def
          sample_noise3_def diagonal_inverse_def matrix_times_matrix_def point_times_matrix_def
          identity_matrix_def)
qed

section \<open>The per-vertex test of the weight\<close>

text \<open>
  C2, as the code has it. The threshold of both tests is the \<^verbatim>\<open>float\<close> constant
  \<^verbatim>\<open>EPSILON\<close>, which is \<open>14073749 / 2\<^sup>4\<^sup>7\<close>, a little above \<open>1e-7\<close>. An envelope at or below
  \<^verbatim>\<open>EPSILON\<close> leaves every vertex as it was, in both methods. With the envelope above
  \<^verbatim>\<open>EPSILON\<close>, the single-threaded method leaves a vertex exactly as it was when its
  weight alone is at or below \<^verbatim>\<open>EPSILON\<close>, and gives every other vertex the position of
  the pipeline; the envelope is no part of the per-vertex test. The multi-threaded method
  has no per-vertex test: every vertex gets the position of the pipeline.
\<close>

theorem weight_test:
  "i < length geom \<Longrightarrow>
     EPSILON = 14073749 / 2 ^ 47 \<and> 1 / 10000000 < EPSILON
     \<and> (env \<le> EPSILON \<longrightarrow>
          deform minv noise3 (data_block env tasks amps freqs offsets oct lac per locMat weights)
              geom worldMat = (kSuccess, geom)
          \<and> deform_MT minv noise3
              (data_block env tasks amps freqs offsets oct lac per locMat weights)
              geom worldMat = (kSuccess, geom))
     \<and> (EPSILON < env \<longrightarrow>
          snd (deform minv noise3
                 (data_block env tasks amps freqs offsets oct lac per locMat weights)
                 geom worldMat) ! i
            = (if weights i \<le> EPSILON then geom ! i
               else spec_displace noise3 env amps freqs offsets oct lac per
                      (spec_toNoiseSpace minv worldMat locMat)
                      (spec_fromNoiseSpace minv worldMat locMat)
                      (weights i) (geom ! i))
          \<and> (1 \<le> tasks \<longrightarrow>
               snd (deform_MT minv noise3
                      (data_block env tasks amps freqs offsets oct lac per locMat weights)
                      geom worldMat) ! i
                 = spec_displace noise3 env amps freqs offsets oct lac per
                     (spec_toNoiseSpace minv worldMat locMat)
                     (spec_fromNoiseSpace minv worldMat locMat)
                     (weights i) (geom ! i)))"
  using EPSILON_float
  by (simp add: deform_below_envelope deform_run_nth deform_MT_run_nth
        spec_toNoiseSpace_def spec_fromNoiseSpace_def)

theorem weight_test_witness:
  "(0::nat) < length [Vec4 1 0 0 1] \<and> EPSILON < 2 \<and> (1::int) \<le> 16
   \<and> snd (deform diagonal_inverse sample_noise3
            (default_block 2 identity_matrix (\<lambda>index. 6 / 100000000))
            [Vec4 1 0 0 1] identity_matrix) ! 0 = Vec4 1 0 0 1
   \<and> snd (deform_MT diagonal_inverse sample_noise3
            (default_block 2 identity_matrix (\<lambda>index. 6 / 100000000))
            [Vec4 1 0 0 1] identity_matrix) ! 0
       = Vec4 (1 + 6 / 100000000) (2 * (6 / 100000000) * (124 / 845834))
              (2 * (6 / 100000000) * (235 / 1168815)) 1
   \<and> (1 / 10000000 :: real) < 14073749 / 140737488355328
   \<and> snd (deform diagonal_inverse sample_noise3
            (default_block 2 identity_matrix (\<lambda>index. 14073749 / 140737488355328))
            [Vec4 1 0 0 1] identity_matrix) ! 0 = Vec4 1 0 0 1
   \<and> (14073749 / 140737488355328 :: real) \<le> EPSILON
   \<and> deform diagonal_inverse sample_noise3
        (default_block (14073749 / 140737488355328) identity_matrix (\<lambda>index. 1))
        [Vec4 1 0 0 1] identity_matrix = (kSuccess, [Vec4 1 0 0 1])"
  using weight_test [of 0 "[Vec4 1 0 0 1]" 2 diagonal_inverse sample_noise3 16 "Float3 1 1 1"
      "Float3 1 1 1" "Float3 0 0 0" 1 2 "1 / 2" identity_matrix "\<lambda>index. 6 / 100000000"
      identity_matrix]
    weight_test [of 0 "[Vec4 1 0 0 1]" 2 diagonal_inverse sample_noise3 16 "Float3 1 1 1"
      "Float3 1 1 1" "Float3 0 0 0" 1 2 "1 / 2" identity_matrix
      "\<lambda>index. 14073749 / 140737488355328" identity_matrix]
    weight_test [of 0 "[Vec4 1 0 0 1]" "14073749 / 140737488355328" diagonal_inverse
      sample_noise3 16 "Float3 1 1 1"
      "Float3 1 1 1" "Float3 0 0 0" 1 2 "1 / 2" identity_matrix "\<lambda>index. 1" identity_matrix]
  by (simp add: EPSILON_def default_block_def spec_toNoiseSpace_def spec_fromNoiseSpace_def
        spec_displace_def sample_noise3_def)

text \<open>
  The claim as stated fails in the single-threaded method. With envelope 2 and weight
  \<open>6e-8\<close> the product is \<open>1.2e-7\<close>, at least \<open>1e-7\<close> and at least \<^verbatim>\<open>EPSILON\<close>, yet the
  vertex is skipped and keeps its position, which is not the pipeline's. With envelope
  0.5 and weight \<open>1.5e-7\<close> the product is \<open>7.5e-8\<close>, below \<open>1e-7\<close> and below \<^verbatim>\<open>EPSILON\<close>,
  yet the vertex is moved, in both methods.
\<close>

theorem product_test_counterexample:
  "EPSILON \<le> 2 * (6 / 100000000)
   \<and> deform_point sample_noise3 2 (Float3 1 1 1) (Float3 1 1 1) (Float3 0 0 0) 1 2 (1 / 2)
        identity_matrix identity_matrix (6 / 100000000) (Vec4 1 0 0 1) = None
   \<and> deform diagonal_inverse sample_noise3
        (default_block 2 identity_matrix (\<lambda>index. 6 / 100000000))
        [Vec4 1 0 0 1] identity_matrix = (kSuccess, [Vec4 1 0 0 1])
   \<and> spec_displace sample_noise3 2 (Float3 1 1 1) (Float3 1 1 1) (Float3 0 0 0) 1 2 (1 / 2)
        identity_matrix identity_matrix (6 / 100000000) (Vec4 1 0 0 1) \<noteq> Vec4 1 0 0 1
   \<and> (1 / 2) * (15 / 100000000) < EPSILON
   \<and> deform diagonal_inverse sample_noise3
        (default_block (1 / 2) identity_matrix (\<lambda>index. 15 / 100000000))
        [Vec4 1 0 0 1] identity_matrix \<noteq> (kSuccess, [Vec4 1 0 0 1])
   \<and> deform_MT diagonal_inverse sample_noise3
        (default_block (1 / 2) identity_matrix (\<lambda>index. 15 / 100000000))
        [Vec4 1 0 0 1] identity_matrix \<noteq> (kSuccess, [Vec4 1 0 0 1])
   \<and> (1 / 10000000 :: real) \<le> 2 * (6 / 100000000)
   \<and> ((1 / 2) * (15 / 100000000) :: real) < 1 / 10000000"
proof -
  have eps: "EPSILON < 2" "EPSILON < 1 / 2" by (simp_all add: EPSILON_def)
  show ?thesis
    using eps
    by (simp add: default_block_def deform_run deform_MT_run deform_point_spec spec_displace_def
          sample_noise3_def EPSILON_def)
qed

section \<open>The two methods compared\<close>

text \<open>
  C5, as the code has it. When every attribute read succeeds, the single-threaded
  method and the multi-threaded method with any task count \<open>t \<ge> 1\<close> (task count 1 among
  them) return the same status and as many positions, and the same position for every
  vertex whose weight is above the \<^verbatim>\<open>float\<close> constant \<^verbatim>\<open>EPSILON\<close> (\<open>14073749 / 2\<^sup>4\<^sup>7\<close>, a
  little above \<open>1e-7\<close>), whatever the weights of the other vertices. So the two results
  are equal when every weight is above \<^verbatim>\<open>EPSILON\<close>, and also when the envelope is at or
  below \<^verbatim>\<open>EPSILON\<close>. On a vertex whose weight is at or below \<^verbatim>\<open>EPSILON\<close>, with the
  envelope above it, the single-threaded method keeps the input position and the
  multi-threaded method gives the position of the pipeline.
\<close>

theorem variants_agree_above_weight_test:
  "1 \<le> tasks \<Longrightarrow>
     EPSILON = 14073749 / 2 ^ 47 \<and> 1 / 10000000 < EPSILON
     \<and> fst (deform minv noise3
               (data_block env tasks amps freqs offsets oct lac per locMat weights) geom worldMat)
         = fst (deform_MT minv noise3
               (data_block env tasks amps freqs offsets oct lac per locMat weights) geom worldMat)
     \<and> length (snd (deform minv noise3
               (data_block env tasks amps freqs offsets oct lac per locMat weights) geom worldMat))
         = length (snd (deform_MT minv noise3
               (data_block env tasks amps freqs offsets oct lac per locMat weights) geom worldMat))
     \<and> (\<forall>i<length geom. EPSILON < weights i \<longrightarrow>
          snd (deform minv noise3
                 (data_block env tasks amps freqs offsets oct lac per locMat weights)
                 geom worldMat) ! i
            = snd (deform_MT minv noise3
                 (data_block env tasks amps freqs offsets oct lac per locMat weights)
                 geom worldMat) ! i)
     \<and> (\<forall>i<length geom. weights i \<le> EPSILON \<and> EPSILON < env \<longrightarrow>
          snd (deform minv noise3
                 (data_block env tasks amps freqs offsets oct lac per locMat weights)
                 geom worldMat) ! i = geom ! i
          \<and> snd (deform_MT minv noise3
                 (data_block env tasks amps freqs offsets oct lac per locMat weights)
                 geom worldMat) ! i
              = spec_displace noise3 env amps freqs offsets oct lac per
                  (spec_toNoiseSpace minv worldMat locMat)
                  (spec_fromNoiseSpace minv worldMat locMat)
                  (weights i) (geom ! i))
     \<and> ((\<forall>i<length geom. EPSILON < weights i) \<longrightarrow>
          deform minv noise3
              (data_block env tasks amps freqs offsets oct lac per locMat weights) geom worldMat
            = deform_MT minv noise3
              (data_block env tasks amps freqs offsets oct lac per locMat weights) geom worldMat)
     \<and> (env \<le> EPSILON \<longrightarrow>
          deform minv noise3
              (data_block env tasks amps freqs offsets oct lac per locMat weights) geom worldMat
            = deform_MT minv noise3
              (data_block env tasks amps freqs offsets oct lac per locMat weights) geom worldMat)"
proof -
  assume t: "1 \<le> tasks"
  let ?st = "deform minv noise3
      (data_block env tasks amps freqs offsets oct lac per locMat weights) geom worldMat"
  let ?mt = "deform_MT minv noise3
      (data_block env tasks amps freqs offsets oct lac per locMat weights) geom worldMat"
  have below: "?st = (kSuccess, geom) \<and> ?mt = (kSuccess, geom)" if "env \<le> EPSILON"
    using that by (rule deform_below_envelope)
  have st: "fst ?st = kSuccess" by (rule deform_status)
  have mt: "fst ?mt = kSuccess" by (rule deform_MT_status)
  have len: "length (snd ?st) = length geom \<and> length (snd ?mt) = length geom"
  proof (cases "env \<le> EPSILON")
    case True
    then show ?thesis using below by simp
  next
    case False
    then show ?thesis using t by (simp add: deform_run deform_MT_run)
  qed
  have nth_st: "snd ?st ! i = (if weights i \<le> EPSILON then geom ! i
        else spec_displace noise3 env amps freqs offsets oct lac per
               (spec_toNoiseSpace minv worldMat locMat) (spec_fromNoiseSpace minv worldMat locMat)
               (weights i) (geom ! i))"
    if "EPSILON < env" "i < length geom" for i
    using that by (simp add: deform_run_nth spec_toNoiseSpace_def spec_fromNoiseSpace_def)
  have nth_mt: "snd ?mt ! i = spec_displace noise3 env amps freqs offsets oct lac per
               (spec_toNoiseSpace minv worldMat locMat) (spec_fromNoiseSpace minv worldMat locMat)
               (weights i) (geom ! i)"
    if "EPSILON < env" "i < length geom" for i
    using that t by (simp add: deform_MT_run_nth spec_toNoiseSpace_def spec_fromNoiseSpace_def)
  have c3: "\<forall>i<length geom. EPSILON < weights i \<longrightarrow> snd ?st ! i = snd ?mt ! i"
  proof (cases "env \<le> EPSILON")
    case True
    then show ?thesis using below by simp
  next
    case False
    then show ?thesis using nth_st nth_mt by simp
  qed
  have c4: "\<forall>i<length geom. weights i \<le> EPSILON \<and> EPSILON < env \<longrightarrow>
      snd ?st ! i = geom ! i
      \<and> snd ?mt ! i = spec_displace noise3 env amps freqs offsets oct lac per
               (spec_toNoiseSpace minv worldMat locMat) (spec_fromNoiseSpace minv worldMat locMat)
               (weights i) (geom ! i)"
    using nth_st nth_mt by simp
  have c5: "(\<forall>i<length geom. EPSILON < weights i) \<longrightarrow> ?st = ?mt"
  proof
    assume "\<forall>i<length geom. EPSILON < weights i"
    then have "snd ?st = snd ?mt"
      using c3 len by (intro nth_equalityI) simp_all
    then show "?st = ?mt" using st mt by (simp add: prod_eq_iff)
  qed
  have c6: "env \<le> EPSILON \<longrightarrow> ?st = ?mt" using below by simp
  show ?thesis
    using EPSILON_float st mt len c3 c4 c5 c6 by simp
qed

theorem variants_agree_above_weight_test_witness:
  "(1::int) \<le> 1 \<and> EPSILON < 1
   \<and> deform diagonal_inverse sample_noise3
        (data_block 1 1 (Float3 1 1 1) (Float3 1 1 1) (Float3 0 0 0) 1 2 (1 / 2)
           identity_matrix (\<lambda>index. 1)) [Vec4 1 0 0 1] identity_matrix
     = deform_MT diagonal_inverse sample_noise3
        (data_block 1 1 (Float3 1 1 1) (Float3 1 1 1) (Float3 0 0 0) 1 2 (1 / 2)
           identity_matrix (\<lambda>index. 1)) [Vec4 1 0 0 1] identity_matrix
   \<and> deform_MT diagonal_inverse sample_noise3
        (data_block 1 1 (Float3 1 1 1) (Float3 1 1 1) (Float3 0 0 0) 1 2 (1 / 2)
           identity_matrix (\<lambda>index. 1)) [Vec4 1 0 0 1] identity_matrix
     = (kSuccess, [Vec4 (3 / 2) (124 / 845834) (235 / 1168815) 1])
   \<and> (0::nat) < length [Vec4 1 0 0 1, Vec4 1 0 0 1]
   \<and> snd (deform diagonal_inverse sample_noise3
        (data_block 1 1 (Float3 1 1 1) (Float3 1 1 1) (Float3 0 0 0) 1 2 (1 / 2)
           identity_matrix (\<lambda>index. if index = 0 then 1 else 5 / 100000000))
        [Vec4 1 0 0 1, Vec4 1 0 0 1] identity_matrix) ! 0
     = snd (deform_MT diagonal_inverse sample_noise3
        (data_block 1 1 (Float3 1 1 1) (Float3 1 1 1) (Float3 0 0 0) 1 2 (1 / 2)
           identity_matrix (\<lambda>index. if index = 0 then 1 else 5 / 100000000))
        [Vec4 1 0 0 1, Vec4 1 0 0 1] identity_matrix) ! 0
   \<and> deform_MT diagonal_inverse sample_noise3
        (data_block 1 1 (Float3 1 1 1) (Float3 1 1 1) (Float3 0 0 0) 1 2 (1 / 2)
           identity_matrix (\<lambda>index. if index = 0 then 1 else 5 / 100000000))
        [Vec4 1 0 0 1, Vec4 1 0 0 1] identity_matrix
     = (kSuccess, [Vec4 (3 / 2) (124 / 845834) (235 / 1168815) 1,
                   Vec4 (1 + 5 / 200000000) (5 / 100000000 * (124 / 845834))
                        (5 / 100000000 * (235 / 1168815)) 1])"
proof -
  have eps: "EPSILON < 1" by (simp add: EPSILON_def)
  then have w: "\<forall>i<length [Vec4 1 0 0 1]. EPSILON < (\<lambda>index. 1 :: real) i"
    by simp
  have one: "(1::int) \<le> 1" by simp
  have mt: "deform_MT diagonal_inverse sample_noise3
        (data_block 1 1 (Float3 1 1 1) (Float3 1 1 1) (Float3 0 0 0) 1 2 (1 / 2)
           identity_matrix (\<lambda>index. 1)) [Vec4 1 0 0 1] identity_matrix
     = (kSuccess, [Vec4 (3 / 2) (124 / 845834) (235 / 1168815) 1])"
    using eps by (simp add: deform_MT_run spec_displace_def sample_noise3_def)
  have mt2: "deform_MT diagonal_inverse sample_noise3
        (data_block 1 1 (Float3 1 1 1) (Float3 1 1 1) (Float3 0 0 0) 1 2 (1 / 2)
           identity_matrix (\<lambda>index. if index = 0 then 1 else 5 / 100000000))
        [Vec4 1 0 0 1, Vec4 1 0 0 1] identity_matrix
     = (kSuccess, [Vec4 (3 / 2) (124 / 845834) (235 / 1168815) 1,
                   Vec4 (1 + 5 / 200000000) (5 / 100000000 * (124 / 845834))
                        (5 / 100000000 * (235 / 1168815)) 1])"
    using eps
    by (simp add: deform_MT_run spec_displace_def sample_noise3_def
          upt_rec [of 0] upt_rec [of 1] upt_rec [of 2])
  note A = variants_agree_above_weight_test [OF one, of diagonal_inverse sample_noise3 1
      "Float3 1 1 1" "Float3 1 1 1" "Float3 0 0 0" 1 2 "1 / 2" identity_matrix "\<lambda>index. 1"
      "[Vec4 1 0 0 1]" identity_matrix]
  note whole = A [THEN conjunct2, THEN conjunct2, THEN conjunct2, THEN conjunct2,
      THEN conjunct2, THEN conjunct2, THEN conjunct1, THEN mp, OF w]
  note B = variants_agree_above_weight_test [OF one, of diagonal_inverse sample_noise3 1
      "Float3 1 1 1" "Float3 1 1 1" "Float3 0 0 0" 1 2 "1 / 2" identity_matrix
      "\<lambda>index. if index = 0 then 1 else 5 / 100000000"
      "[Vec4 1 0 0 1, Vec4 1 0 0 1]" identity_matrix]
  note vertex = B [THEN conjunct2, THEN conjunct2, THEN conjunct2, THEN conjunct2,
      THEN conjunct1, rule_format, of 0]
  show ?thesis
    using eps mt mt2 whole vertex by simp
qed

text \<open>
  The claim as stated fails on a vertex of weight at or below \<^verbatim>\<open>EPSILON\<close>, which the
  single-threaded method skips and the multi-threaded method runs through the pipeline:
  with identity frames and weight \<open>5e-8\<close>, and with weight 0 and the locator scaled to
  zero along x.
\<close>

theorem variants_differ_counterexample:
  "deform diagonal_inverse sample_noise3
      (data_block 1 1 (Float3 1 1 1) (Float3 1 1 1) (Float3 0 0 0) 1 2 (1 / 2)
         identity_matrix (\<lambda>index. 5 / 100000000)) [Vec4 1 0 0 1] identity_matrix
     \<noteq> deform_MT diagonal_inverse sample_noise3
      (data_block 1 1 (Float3 1 1 1) (Float3 1 1 1) (Float3 0 0 0) 1 2 (1 / 2)
         identity_matrix (\<lambda>index. 5 / 100000000)) [Vec4 1 0 0 1] identity_matrix
   \<and> deform diagonal_inverse sample_noise3
      (data_block 1 1 (Float3 1 1 1) (Float3 1 1 1) (Float3 0 0 0) 1 2 (1 / 2)
         identity_matrix (\<lambda>index. 5 / 100000000)) [Vec4 1 0 0 1] identity_matrix
     = (kSuccess, [Vec4 1 0 0 1])
   \<and> deform_MT diagonal_inverse sample_noise3
      (data_block 1 1 (Float3 1 1 1) (Float3 1 1 1) (Float3 0 0 0) 1 2 (1 / 2)
         identity_matrix (\<lambda>index. 5 / 100000000)) [Vec4 1 0 0 1] identity_matrix
     = (kSuccess, [Vec4 (1 + 5 / 200000000) (5 / 100000000 * (124 / 845834))
                        (5 / 100000000 * (235 / 1168815)) 1])
   \<and> deform diagonal_inverse sample_noise3
      (data_block 1 1 (Float3 1 1 1) (Float3 1 1 1) (Float3 0 0 0) 1 2 (1 / 2)
         (MMatrix (Vec4 0 0 0 0) (Vec4 0 1 0 0) (Vec4 0 0 1 0) (Vec4 0 0 0 1)) (\<lambda>index. 0))
      [Vec4 1 0 0 1] identity_matrix
     = (kSuccess, [Vec4 1 0 0 1])
   \<and> deform_MT diagonal_inverse sample_noise3
      (data_block 1 1 (Float3 1 1 1) (Float3 1 1 1) (Float3 0 0 0) 1 2 (1 / 2)
         (MMatrix (Vec4 0 0 0 0) (Vec4 0 1 0 0) (Vec4 0 0 1 0) (Vec4 0 0 0 1)) (\<lambda>index. 0))
      [Vec4 1 0 0 1] identity_matrix
     = (kSuccess, [Vec4 0 0 0 1])"
proof -
  have eps: "EPSILON < 1" by (simp add: EPSILON_def)
  show ?thesis
    using eps
    by (simp add: deform_run deform_MT_run deform_point_spec spec_displace_def
          sample_noise3_def EPSILON_def diagonal_inverse_def matrix_times_matrix_def
          point_times_matrix_def identity_matrix_def)
qed

end
